theory Spec2Isabelle
  imports Complex_Main
begin

section \<open>Python primitives used by the analyzer\<close>

text \<open>
  Conventions of the embedding.
  \<^item> A Python \<open>str\<close> is a \<open>string\<close>: a list of 8-bit characters, read as the code
    points 0..255 (Latin-1).
  \<^item> A Python \<open>float\<close> is a \<open>real\<close>: the scores are modelled with exact arithmetic,
    \<open>x ** y\<close> is \<open>x powr y\<close> for \<open>x \<ge> 0\<close>.
  \<^item> An exception is the \<open>Inl\<close> branch of a sum.
\<close>

datatype py_error = TypeError

text \<open>\<open>str.isspace\<close> for one character of the Latin-1 range.\<close>

definition isspace :: "char \<Rightarrow> bool" where
  "isspace c = (let n = (of_char c :: nat) in
     (9 \<le> n \<and> n \<le> 13) \<or> (28 \<le> n \<and> n \<le> 32) \<or> n = 133 \<or> n = 160)"

text \<open>\<open>str.lower\<close>: A-Z and the upper-case letters of Latin-1.\<close>

definition lower_char :: "char \<Rightarrow> char" where
  "lower_char c = (let n = (of_char c :: nat) in
     if (65 \<le> n \<and> n \<le> 90) \<or> (192 \<le> n \<and> n \<le> 222 \<and> n \<noteq> 215)
     then char_of (n + 32) else c)"

definition lower :: "string \<Rightarrow> string" where
  "lower s = map lower_char s"

text \<open>\<open>s.split()\<close>: the maximal runs of non-whitespace characters, in order.\<close>

fun split_ws :: "string \<Rightarrow> string \<Rightarrow> string list" where
  "split_ws w [] = (if w = [] then [] else [w])"
| "split_ws w (c # cs) =
     (if isspace c then (if w = [] then split_ws [] cs else w # split_ws [] cs)
      else split_ws (w @ [c]) cs)"

definition str_split :: "string \<Rightarrow> string list" where
  "str_split s = split_ws [] s"

text \<open>\<open>s.startswith(p)\<close> and \<open>sub in s\<close>.\<close>

fun startswith :: "string \<Rightarrow> string \<Rightarrow> bool" where
  "startswith s [] = True"
| "startswith [] (p # ps) = False"
| "startswith (c # cs) (p # ps) = (c = p \<and> startswith cs ps)"

fun contains :: "string \<Rightarrow> string \<Rightarrow> bool" where
  "contains [] sub = (sub = [])"
| "contains (c # cs) sub = (startswith (c # cs) sub \<or> contains cs sub)"

text \<open>
  \<open>s.find(sub, start)\<close> for \<open>start \<ge> 0\<close>: the lowest index \<open>\<ge> start\<close> at which
  \<open>sub\<close> occurs, and \<open>-1\<close> when there is none. It does not raise.
\<close>

fun find_aux :: "string \<Rightarrow> string \<Rightarrow> nat \<Rightarrow> int" where
  "find_aux [] sub i = (if sub = [] then int i else - 1)"
| "find_aux (c # cs) sub i =
     (if startswith (c # cs) sub then int i else find_aux cs sub (Suc i))"

definition str_find :: "string \<Rightarrow> string \<Rightarrow> nat \<Rightarrow> int" where
  "str_find s sub start =
     (if start > length s then - 1 else find_aux (drop start s) sub start)"

text \<open>
  \<open>round(x, 1)\<close>: to one decimal, a tie going to the even last digit.
\<close>

definition py_round1 :: "real \<Rightarrow> real" where
  "py_round1 x = (let y = x * 10; f = \<lfloor>y\<rfloor>; d = y - of_int f in
     of_int (if d < 1 / 2 then f else if d > 1 / 2 then f + 1
             else if even f then f else f + 1) / 10)"

text \<open>\<open>text[a:b]\<close> for \<open>0 \<le> a\<close>, \<open>0 \<le> b\<close>.\<close>

definition slice :: "string \<Rightarrow> nat \<Rightarrow> nat \<Rightarrow> string" where
  "slice s a b = take (b - a) (drop a s)"

text \<open>\<open>d.get(k, default)\<close> on a dictionary kept as an association list in insertion order.\<close>

definition dict_get :: "(string \<times> 'a) list \<Rightarrow> string \<Rightarrow> 'a \<Rightarrow> 'a" where
  "dict_get d k dflt = (case map_of d k of Some v \<Rightarrow> v | None \<Rightarrow> dflt)"

text \<open>\<open>any(p in s for p in ps)\<close>.\<close>

definition contains_any :: "string \<Rightarrow> string list \<Rightarrow> bool" where
  "contains_any s ps = list_ex (contains s) ps"

subsection \<open>Regular expressions\<close>

text \<open>
  The fragment of Python's \<open>re\<close> syntax that the patterns of the detector use: literals,
  the classes \<open>\d\<close>, \<open>\s\<close> and \<open>.\<close>, sequence, alternation, the greedy star of a class
  and the greedy option. \<open>re_match r s\<close> lists the remainders of \<open>s\<close> after every way
  of matching \<open>r\<close> at its start, in the order in which the backtracking matcher tries
  them; its head is the match Python reports.
\<close>

datatype cclass = Digit | Space | Dot

fun in_class :: "cclass \<Rightarrow> char \<Rightarrow> bool" where
  "in_class Digit c = (let n = (of_char c :: nat) in 48 \<le> n \<and> n \<le> 57)"
| "in_class Space c = isspace c"
| "in_class Dot c = (c \<noteq> CHR 0x0A)"

datatype regex =
    Lit string
  | Cls cclass
  | Seq regex regex
  | Alt regex regex
  | Star cclass
  | Opt regex

fun star_rests :: "cclass \<Rightarrow> string \<Rightarrow> string list" where
  "star_rests k [] = [[]]"
| "star_rests k (c # cs) = (if in_class k c then star_rests k cs @ [c # cs] else [c # cs])"

fun re_match :: "regex \<Rightarrow> string \<Rightarrow> string list" where
  "re_match (Lit p) s = (if startswith s p then [drop (length p) s] else [])"
| "re_match (Cls k) s = (case s of [] \<Rightarrow> [] | c # cs \<Rightarrow> if in_class k c then [cs] else [])"
| "re_match (Seq r1 r2) s = concat (map (re_match r2) (re_match r1 s))"
| "re_match (Alt r1 r2) s = re_match r1 s @ re_match r2 s"
| "re_match (Star k) s = star_rests k s"
| "re_match (Opt r) s = re_match r s @ [s]"

text \<open>\<open>re.search(pattern, s)\<close> as a truth value.\<close>

fun re_search :: "regex \<Rightarrow> string \<Rightarrow> bool" where
  "re_search r [] = (re_match r [] \<noteq> [])"
| "re_search r (c # cs) = (re_match r (c # cs) \<noteq> [] \<or> re_search r cs)"

text \<open>
  \<open>re.finditer(pattern, s)\<close>: the non-overlapping matches from left to right, each as
  (matched text, start, end). The scan resumes at the end of a match. The patterns it
  is used with begin with a literal, so a match is never empty; the step \<open>max n 1\<close>
  only makes that visible to the termination argument.
\<close>

function finditer_from :: "regex \<Rightarrow> string \<Rightarrow> nat \<Rightarrow> (string \<times> nat \<times> nat) list" where
  "finditer_from r [] pos = []"
| "finditer_from r (c # cs) pos =
     (case re_match r (c # cs) of
        [] \<Rightarrow> finditer_from r cs (Suc pos)
      | rest # _ \<Rightarrow>
          (let n = length (c # cs) - length rest in
           (take n (c # cs), pos, pos + n)
             # finditer_from r (drop (max n 1) (c # cs)) (pos + max n 1)))"
  by pat_completeness auto
termination
  by (relation "measure (\<lambda>(r, s, pos). length s)") auto

definition finditer :: "regex \<Rightarrow> string \<Rightarrow> (string \<times> nat \<times> nat) list" where
  "finditer r s = finditer_from r s 0"

text \<open>Pattern shorthands: \<open>a|b|c\<close> over literals, \<open>\d+\<close>, and a sequence of parts.\<close>

fun lits :: "string list \<Rightarrow> regex" where
  "lits [] = Lit []"
| "lits [x] = Lit x"
| "lits (x # y # ys) = Alt (Lit x) (lits (y # ys))"

definition digits1 :: regex where
  "digits1 = Seq (Cls Digit) (Star Digit)"

fun seqs :: "regex list \<Rightarrow> regex" where
  "seqs [] = Lit []"
| "seqs [r] = r"
| "seqs (r # q # rs) = Seq r (seqs (q # rs))"

definition search_any :: "regex list \<Rightarrow> string \<Rightarrow> bool" where
  "search_any patterns s = list_ex (\<lambda>pattern. re_search pattern s) patterns"

section \<open>ambiguity_detector.py\<close>

text \<open>
  The dataclass \<open>AmbiguityIssue\<close> (fields \<open>type\<close>, \<open>text\<close>, \<open>message\<close>, \<open>start_char\<close>,
  \<open>end_char\<close>; \<open>None\<close> is the offsets' default).
\<close>

record AmbiguityIssue =
  amb_type :: string
  amb_text :: string
  amb_message :: string
  start_char :: "int option"
  end_char :: "int option"

text \<open>
  What the detector reads of a spaCy token: \<open>token.text\<close>, \<open>token.idx\<close> (the offset of
  the token in the processed text), \<open>token.pos_\<close> and \<open>token.dep_\<close>. The language
  pipeline itself is external; the detectors below take the token sequence it returns.
\<close>

record Token =
  tok_text :: string
  idx :: nat
  pos_tag :: string
  dep_tag :: string

type_synonym Doc = "Token list"

text \<open>\<open>AMBIGUITY_WEIGHTS\<close>: an entry is a nested dictionary or a number.\<close>

datatype weight_entry = Nested "(string \<times> real) list" | Scalar real

definition AMBIGUITY_WEIGHTS :: "(string \<times> weight_entry) list" where
  "AMBIGUITY_WEIGHTS =
    [(''Subjective term'', Nested
        [(''performance'', 6), (''quality'', 5), (''usability'', 8), (''reliability'', 8),
         (''security'', 9), (''scalability'', 7), (''efficiency'', 6), (''accuracy'', 10),
         (''compatibility'', 7), (''maintainability'', 6)]),
     (''Weak modality'', Nested
        [(''possibility'', 5), (''preference'', 6), (''conditionality'', 7),
         (''frequency'', 4), (''probability'', 6), (''tentativeness'', 5)]),
     (''Undefined reference'', Scalar 9),
     (''Non-testable statement'', Scalar 15)]"

definition subjective_terms :: "string list" where
  "subjective_terms =
    [''fast'', ''slow'', ''quick'', ''rapid'', ''secure'', ''safe'', ''scalable'',
     ''optimal'', ''efficient'', ''user-friendly'', ''intuitive'', ''robust'',
     ''reliable'', ''stable'', ''flexible'', ''portable'', ''compatible'',
     ''accessible'', ''responsive'', ''smooth'', ''seamless'', ''clean'',
     ''proper'', ''correct'', ''appropriate'', ''adequate'', ''sufficient'']"

definition weak_modality_terms :: "string list" where
  "weak_modality_terms =
    [''should'', ''could'', ''might'', ''may'', ''can'', ''if possible'',
     ''as needed'', ''when necessary'', ''ideally'', ''preferably'']"

definition undefined_references :: "string list" where
  "undefined_references =
    [''it'', ''this'', ''that'', ''these'', ''those'', ''the system'',
     ''the component'', ''the application'', ''the user'']"

text \<open>
  \<open>non_testable_patterns\<close>: \<open>handle.*properly\<close>, \<open>work.*correctly\<close>,
  \<open>function.*properly\<close>, \<open>behave.*correctly\<close>, \<open>perform.*properly\<close>,
  \<open>process.*correctly\<close>.
\<close>

definition non_testable_patterns :: "regex list" where
  "non_testable_patterns =
    [seqs [Lit ''handle'', Star Dot, Lit ''properly''],
     seqs [Lit ''work'', Star Dot, Lit ''correctly''],
     seqs [Lit ''function'', Star Dot, Lit ''properly''],
     seqs [Lit ''behave'', Star Dot, Lit ''correctly''],
     seqs [Lit ''perform'', Star Dot, Lit ''properly''],
     seqs [Lit ''process'', Star Dot, Lit ''correctly'']]"

text \<open>
  \<open>_find_char_position\<close>: \<open>try: return original_text.lower().find(token_text, token_idx)\<close>
  \<open>except: return None\<close>. On a string \<open>find\<close> does not raise, so the handler is never
  entered and the result is never \<open>None\<close>.
\<close>

definition find_char_position :: "string \<Rightarrow> string \<Rightarrow> nat \<Rightarrow> int option" where
  "find_char_position original_text token_text token_idx =
     Some (str_find (lower original_text) token_text token_idx)"

text \<open>\<open>end_char = start_char + len(token.text) if start_char is not None else None\<close>.\<close>

definition end_of :: "int option \<Rightarrow> string \<Rightarrow> int option" where
  "end_of start token_text =
     (case start of None \<Rightarrow> None | Some p \<Rightarrow> Some (p + int (length token_text)))"

definition quote :: "string \<Rightarrow> string" where
  "quote s = [CHR 0x27] @ s @ [CHR 0x27]"

subsection \<open>Context checks of the subjective terms\<close>

text \<open>\<open>_get_context_window\<close>.\<close>

definition get_context_window :: "Token \<Rightarrow> string \<Rightarrow> nat \<Rightarrow> string" where
  "get_context_window token text_in window_size =
     (let token_start = idx token;
          token_end = token_start + length (tok_text token);
          search_start = token_start - window_size;
          search_end = min (length text_in) (token_end + window_size)
      in slice text_in search_start search_end)"

text \<open>
  \<open>_has_quantitative_context\<close>. The patterns are searched with \<open>re.IGNORECASE\<close> in a
  window that is already lower-cased.
\<close>

definition quantitative_patterns :: "regex list" where
  "quantitative_patterns =
    [digits1,
     seqs [digits1, Star Space, lits [''ms'', ''sec'', ''second'', ''minute'', ''hour'', ''day'']],
     seqs [digits1, Star Space, lits [''%'', ''percent'']],
     seqs [digits1, Star Space, lits [''px'', ''pixel'', ''mb'', ''gb'', ''kb'']],
     seqs [digits1, Star Space, lits [''user'', ''request'', ''transaction'', ''operation'']],
     lits [''less than'', ''greater than'', ''at least'', ''at most''],
     seqs [digits1, Lit ''.'', digits1],
     lits [''zero'', ''one'', ''two'', ''three'', ''four'', ''five'', ''six'', ''seven'',
           ''eight'', ''nine'', ''ten'']]"

definition has_quantitative_context :: "Token \<Rightarrow> string \<Rightarrow> bool" where
  "has_quantitative_context token text_in =
     search_any quantitative_patterns (lower (get_context_window token text_in 50))"

definition timing_patterns :: "regex list" where
  "timing_patterns =
    [seqs [digits1, Star Space, lits [''ms'', ''millisecond'', ''sec'', ''second'', ''minute'']],
     lits [''under'', ''within'', ''less than'', ''no more than''],
     lits [''response time'', ''load time'', ''render time''],
     Alt (seqs [digits1, Star Space, Lit ''fps'']) (Lit ''frames per second''),
     lits [''latency'', ''throughput'', ''bandwidth'']]"

definition has_performance_context :: "Token \<Rightarrow> string \<Rightarrow> bool" where
  "has_performance_context token text_in =
     search_any timing_patterns (lower (get_context_window token text_in 100))"

definition security_patterns :: "regex list" where
  "security_patterns =
    [lits [''encryption'', ''ssl'', ''tls'', ''https'', ''oauth'', ''jwt'', ''saml''],
     lits [''authentication'', ''authorization'', ''auth''],
     lits [''firewall'', ''vpn'', ''certificate'', ''key''],
     lits [''sql injection'', ''xss'', ''csrf'', ''attack'', ''threat''],
     lits [''password'', ''credential'', ''token'', ''session''],
     lits [''aes'', ''rsa'', ''sha'', ''hash'', ''salt'']]"

definition has_security_context :: "Token \<Rightarrow> string \<Rightarrow> bool" where
  "has_security_context token text_in =
     search_any security_patterns (lower (get_context_window token text_in 150))"

definition usability_patterns :: "regex list" where
  "usability_patterns =
    [lits [''accessibility'', ''wcag'', ''contrast'', ''font size''],
     lits [''click'', ''tap'', ''gesture'', ''navigation'', ''menu''],
     lits [''error message'', ''feedback'', ''guidance''],
     lits [''learning curve'', ''training time''],
     lits [''efficiency'', ''effectiveness'', ''satisfaction''],
     lits [''task completion'', ''success rate'', ''error rate'']]"

definition has_usability_context :: "Token \<Rightarrow> string \<Rightarrow> bool" where
  "has_usability_context token text_in =
     search_any usability_patterns (lower (get_context_window token text_in 100))"

definition reliability_patterns :: "regex list" where
  "reliability_patterns =
    [seqs [digits1, Star Space, lits [''%'', ''percent''], Star Space, Lit ''uptime''],
     lits [''mean time'', ''mtbf'', ''mttr''],
     lits [''availability'', ''sla'', ''downtime''],
     lits [''redundancy'', ''failover'', ''backup''],
     lits [''error rate'', ''failure rate'', ''recovery''],
     Alt (seqs [digits1, Star Space, Lit ''nines'']) (lits [''five nines'', ''four nines''])]"

definition has_reliability_context :: "Token \<Rightarrow> string \<Rightarrow> bool" where
  "has_reliability_context token text_in =
     search_any reliability_patterns (lower (get_context_window token text_in 100))"

definition scalability_patterns :: "regex list" where
  "scalability_patterns =
    [seqs [digits1, Star Space, lits [''user'', ''request'', ''transaction'', ''connection'']],
     lits [''concurrent'', ''simultaneous'', ''parallel''],
     Alt (Lit ''horizontal'') (Alt (Lit ''vertical'') (seqs [Lit ''auto'', Opt (Cls Dot), Lit ''scal''])),
     lits [''load balanc'', ''cluster'', ''distributed''],
     lits [''peak'', ''maximum'', ''capacity'', ''throughput''],
     Alt (Lit ''elastic'') (Alt (Lit ''dynamic'') (seqs [Lit ''on'', Opt (Cls Dot), Lit ''demand'']))]"

definition has_scalability_context :: "Token \<Rightarrow> string \<Rightarrow> bool" where
  "has_scalability_context token text_in =
     search_any scalability_patterns (lower (get_context_window token text_in 100))"

subsection \<open>The four detectors\<close>

text \<open>\<open>_detect_subjective_terms\<close>: the decision for one token, then the loop.\<close>

definition should_flag :: "Token \<Rightarrow> string \<Rightarrow> bool" where
  "should_flag token original_text =
     (let token_text = lower (tok_text token) in
      if token_text = ''fast'' then \<not> has_performance_context token original_text
      else if token_text = ''secure'' \<or> token_text = ''safe''
        then \<not> has_security_context token original_text
      else if token_text = ''user-friendly'' then \<not> has_usability_context token original_text
      else if token_text = ''reliable'' then \<not> has_reliability_context token original_text
      else if token_text = ''scalable'' then \<not> has_scalability_context token original_text
      else \<not> has_quantitative_context token original_text)"

definition subjective_issue :: "Token \<Rightarrow> string \<Rightarrow> AmbiguityIssue" where
  "subjective_issue token original_text =
     (let start = find_char_position original_text (tok_text token) (idx token) in
      \<lparr>amb_type = ''Subjective term'',
       amb_text = tok_text token,
       amb_message = ''Subjective term '' @ quote (tok_text token)
                       @ '' lacks specific, measurable criteria'',
       start_char = start,
       end_char = end_of start (tok_text token)\<rparr>)"

fun detect_subjective_terms :: "Doc \<Rightarrow> string \<Rightarrow> AmbiguityIssue list" where
  "detect_subjective_terms [] original_text = []"
| "detect_subjective_terms (token # doc) original_text =
     (if List.member subjective_terms (lower (tok_text token))
         \<and> should_flag token original_text
      then subjective_issue token original_text # detect_subjective_terms doc original_text
      else detect_subjective_terms doc original_text)"

text \<open>\<open>_detect_weak_modality\<close>.\<close>

definition weak_modality_issue :: "Token \<Rightarrow> string \<Rightarrow> AmbiguityIssue" where
  "weak_modality_issue token original_text =
     (let start = find_char_position original_text (tok_text token) (idx token) in
      \<lparr>amb_type = ''Weak modality'',
       amb_text = tok_text token,
       amb_message = ''Optional/weak requirement term: '' @ quote (tok_text token),
       start_char = start,
       end_char = end_of start (tok_text token)\<rparr>)"

fun detect_weak_modality :: "Doc \<Rightarrow> string \<Rightarrow> AmbiguityIssue list" where
  "detect_weak_modality [] original_text = []"
| "detect_weak_modality (token # doc) original_text =
     (if List.member weak_modality_terms (tok_text token)
      then weak_modality_issue token original_text # detect_weak_modality doc original_text
      else detect_weak_modality doc original_text)"

text \<open>\<open>_is_undefined_reference\<close> and \<open>_detect_undefined_references\<close>.\<close>

definition is_undefined_reference :: "Token \<Rightarrow> bool" where
  "is_undefined_reference token =
     (pos_tag token = ''PRON'' \<or> dep_tag token = ''det'' \<or> dep_tag token = ''poss'')"

definition undefined_reference_issue :: "Token \<Rightarrow> string \<Rightarrow> AmbiguityIssue" where
  "undefined_reference_issue token original_text =
     (let start = find_char_position original_text (tok_text token) (idx token) in
      \<lparr>amb_type = ''Undefined reference'',
       amb_text = tok_text token,
       amb_message = ''Potentially undefined reference: '' @ quote (tok_text token),
       start_char = start,
       end_char = end_of start (tok_text token)\<rparr>)"

fun detect_undefined_references :: "Doc \<Rightarrow> string \<Rightarrow> AmbiguityIssue list" where
  "detect_undefined_references [] original_text = []"
| "detect_undefined_references (token # doc) original_text =
     (if List.member undefined_references (tok_text token) \<and> is_undefined_reference token
      then undefined_reference_issue token original_text
             # detect_undefined_references doc original_text
      else detect_undefined_references doc original_text)"

text \<open>\<open>_detect_non_testable_statements\<close>: every match of every pattern, pattern by pattern.\<close>

definition non_testable_issue :: "string \<times> nat \<times> nat \<Rightarrow> AmbiguityIssue" where
  "non_testable_issue m =
     (case m of (matched, start, stop) \<Rightarrow>
      \<lparr>amb_type = ''Non-testable statement'',
       amb_text = matched,
       amb_message = ''Non-testable requirement: '' @ quote matched,
       start_char = Some (int start),
       end_char = Some (int stop)\<rparr>)"

definition detect_non_testable_statements :: "string \<Rightarrow> AmbiguityIssue list" where
  "detect_non_testable_statements text_in =
     (let text_lower = lower text_in in
      concat (map (\<lambda>pattern. map non_testable_issue (finditer pattern text_lower))
                  non_testable_patterns))"

text \<open>
  \<open>detect_ambiguities\<close>. The pipeline \<open>self.nlp\<close> is a parameter: it is applied to the
  lower-cased text.
\<close>

definition detect_ambiguities :: "(string \<Rightarrow> Doc) \<Rightarrow> string \<Rightarrow> AmbiguityIssue list" where
  "detect_ambiguities nlp text_in =
     (let doc = nlp (lower text_in) in
      detect_subjective_terms doc text_in
      @ detect_weak_modality doc text_in
      @ detect_undefined_references doc text_in
      @ detect_non_testable_statements text_in)"

subsection \<open>Scoring\<close>

text \<open>\<open>_get_subjective_term_weight\<close>, with its table \<open>category_mapping\<close> in insertion order.\<close>

definition category_mapping :: "(string \<times> string list) list" where
  "category_mapping =
    [(''performance'',
        [''fast'', ''slow'', ''quick'', ''rapid'', ''speedy'', ''swift'', ''brisk'',
         ''sluggish'', ''laggy'', ''smooth'', ''responsive'', ''snappy'', ''nimble'',
         ''agile'', ''zippy'', ''crawling'', ''glacial'', ''lethargic'', ''tardy'',
         ''delayed'', ''unresponsive'', ''clunky'', ''fluid'', ''seamless'', ''effortless'',
         ''lightning'', ''blazing'', ''superfast'', ''ultrafast'']),
     (''quality'',
        [''good'', ''bad'', ''better'', ''best'', ''worse'', ''worst'', ''excellent'',
         ''poor'', ''superior'', ''inferior'', ''great'', ''terrible'', ''superb'', ''awful'',
         ''outstanding'', ''mediocre'', ''exceptional'', ''subpar'', ''premium'',
         ''low-quality'', ''high-quality'', ''top-notch'', ''first-rate'', ''second-rate'',
         ''world-class'', ''substandard'', ''impressive'', ''dismal'', ''stellar'',
         ''pathetic'', ''magnificent'', ''shoddy'', ''splendid'', ''lousy'']),
     (''usability'',
        [''easy'', ''hard'', ''simple'', ''complex'', ''intuitive'', ''confusing'',
         ''user-friendly'', ''difficult'', ''straightforward'', ''complicated'',
         ''accessible'', ''inaccessible'', ''ergonomic'', ''awkward'', ''natural'',
         ''unnatural'', ''obvious'', ''non-obvious'', ''self-explanatory'', ''puzzling'',
         ''clear'', ''unclear'', ''transparent'', ''opaque'', ''learnable'', ''steep'',
         ''gentle'', ''frustrating'', ''pleasing'', ''annoying'']),
     (''reliability'',
        [''reliable'', ''unreliable'', ''robust'', ''fragile'', ''stable'', ''unstable'',
         ''consistent'', ''inconsistent'', ''dependable'', ''flaky'', ''trustworthy'',
         ''untrustworthy'', ''solid'', ''breakable'', ''steady'', ''erratic'',
         ''predictable'', ''unpredictable'', ''bulletproof'', ''vulnerable'',
         ''resilient'', ''brittle'', ''fault-tolerant'', ''failure-prone'']),
     (''security'',
        [''secure'', ''insecure'', ''safe'', ''unsafe'', ''protected'', ''vulnerable'',
         ''trustworthy'', ''risky'', ''encrypted'', ''exposed'', ''guarded'', ''defenseless'',
         ''fortified'', ''weak'', ''tamper-proof'', ''hackable'', ''authenticated'',
         ''unauthenticated'', ''authorized'', ''unauthorized'', ''validated'',
         ''unvalidated'', ''sanitized'', ''contaminated'']),
     (''scalability'',
        [''scalable'', ''non-scalable'', ''flexible'', ''rigid'', ''adaptable'',
         ''inflexible'', ''extensible'', ''limited'', ''expandable'', ''constrained'',
         ''elastic'', ''static'', ''dynamic'', ''fixed'', ''modular'', ''monolithic'',
         ''distributed'', ''centralized'', ''cloud-ready'', ''on-premise'',
         ''horizontal'', ''vertical'', ''auto-scaling'', ''manual'']),
     (''efficiency'',
        [''efficient'', ''inefficient'', ''optimal'', ''suboptimal'', ''effective'',
         ''ineffective'', ''productive'', ''wasteful'', ''streamlined'', ''cumbersome'',
         ''lean'', ''bloated'', ''concise'', ''verbose'', ''succinct'', ''redundant'',
         ''economical'', ''extravagant'', ''frugal'', ''lavish'', ''thrifty'', ''wasteful'',
         ''resourceful'', ''profligate'']),
     (''accuracy'',
        [''accurate'', ''inaccurate'', ''precise'', ''imprecise'', ''exact'', ''inexact'',
         ''correct'', ''incorrect'', ''right'', ''wrong'', ''valid'', ''invalid'', ''true'',
         ''false'', ''factual'', ''erroneous'', ''authentic'', ''fake'', ''genuine'',
         ''counterfeit'', ''legitimate'', ''bogus'']),
     (''compatibility'',
        [''compatible'', ''incompatible'', ''interoperable'', ''non-interoperable'',
         ''universal'', ''proprietary'', ''standard'', ''custom'', ''open'', ''closed'',
         ''cross-platform'', ''platform-specific'', ''vendor-neutral'',
         ''vendor-locked'', ''agnostic'', ''dependent'']),
     (''maintainability'',
        [''maintainable'', ''unmaintainable'', ''modular'', ''monolithic'',
         ''clean'', ''messy'', ''readable'', ''unreadable'', ''organized'',
         ''disorganized'', ''structured'', ''chaotic'', ''documented'',
         ''undocumented'', ''testable'', ''untestable'', ''debuggable'', ''opaque''])]"

fun find_category :: "(string \<times> string list) list \<Rightarrow> string \<Rightarrow> string option" where
  "find_category [] issue_text = None"
| "find_category ((category, terms) # rest) issue_text =
     (if List.member terms issue_text then Some category else find_category rest issue_text)"

definition get_subjective_term_weight :: "AmbiguityIssue \<Rightarrow> (string \<times> real) list \<Rightarrow> real" where
  "get_subjective_term_weight issue category_weights =
     (if amb_type issue = ''Subjective term''
      then (case find_category category_mapping (lower (amb_text issue)) of
              Some category \<Rightarrow> dict_get category_weights category 8
            | None \<Rightarrow> dict_get category_weights ''quality'' 8)
      else 8)"

text \<open>
  \<open>_calculate_component_score\<close>. \<open>issue_weight\<close> is what one turn of its loop adds to
  \<open>base_score\<close>: nothing for a type that \<open>AMBIGUITY_WEIGHTS\<close> does not have.
\<close>

definition issue_weight :: "AmbiguityIssue \<Rightarrow> real" where
  "issue_weight issue =
     (case map_of AMBIGUITY_WEIGHTS (amb_type issue) of
        None \<Rightarrow> 0
      | Some (Nested category_weights) \<Rightarrow> get_subjective_term_weight issue category_weights
      | Some (Scalar weight) \<Rightarrow> weight)"

definition text_length_or_50 :: "string \<Rightarrow> nat" where
  "text_length_or_50 text_in = (if text_in = [] then 50 else length (str_split text_in))"

definition calculate_component_score :: "AmbiguityIssue list \<Rightarrow> string \<Rightarrow> string \<Rightarrow> real" where
  "calculate_component_score component_issues text_in component_type =
     (if component_issues = [] then 0
      else
        (let base_score = sum_list (map issue_weight component_issues);
             text_length = text_length_or_50 text_in;
             density_factor = real (length component_issues) / real (max text_length 5);
             density_score =
               (if component_type = ''lexical'' then min 30 (density_factor * 60)
                else if component_type = ''testability'' then min 40 (density_factor * 80)
                else min 35 (density_factor * 70));
             raw_score = base_score + density_score
         in if raw_score > 80 then 80 + (raw_score - 80) * 0.3
            else min 100 raw_score))"

text \<open>\<open>_calculate_confidence\<close>.\<close>

definition calculate_confidence :: "string \<Rightarrow> AmbiguityIssue list \<Rightarrow> string" where
  "calculate_confidence text_in issues =
     (let text_length = length (str_split text_in);
          issue_count = length issues;
          issue_types = length (remdups (map amb_type issues))
      in if text_length \<ge> 10 \<and> issue_types \<ge> 2
            \<and> real issue_count / real (max text_length 1) \<le> 0.5 then ''HIGH''
         else if text_length \<ge> 5 \<and> issue_count > 0 then ''MEDIUM''
         else ''LOW'')"

text \<open>
  \<open>calculate_ambiguity_score\<close>, up to its \<open>return\<close>; the statements after it are never
  run. The loop sorts the issues into the three lists; a weak-modality issue is
  appended to two of them.
\<close>

record AmbiguityComponents =
  lexical :: real
  testability :: real
  references :: real

record AmbiguityAnalysis =
  amb_score :: real
  confidence :: string
  amb_components :: AmbiguityComponents

fun lexical_issues :: "AmbiguityIssue list \<Rightarrow> AmbiguityIssue list" where
  "lexical_issues [] = []"
| "lexical_issues (issue # issues) =
     (if amb_type issue = ''Subjective term'' then issue # lexical_issues issues
      else if amb_type issue = ''Non-testable statement'' then lexical_issues issues
      else if amb_type issue = ''Undefined reference'' then lexical_issues issues
      else if amb_type issue = ''Weak modality'' then issue # lexical_issues issues
      else lexical_issues issues)"

fun testability_issues :: "AmbiguityIssue list \<Rightarrow> AmbiguityIssue list" where
  "testability_issues [] = []"
| "testability_issues (issue # issues) =
     (if amb_type issue = ''Subjective term'' then testability_issues issues
      else if amb_type issue = ''Non-testable statement'' then issue # testability_issues issues
      else if amb_type issue = ''Undefined reference'' then testability_issues issues
      else if amb_type issue = ''Weak modality'' then issue # testability_issues issues
      else testability_issues issues)"

fun reference_issues :: "AmbiguityIssue list \<Rightarrow> AmbiguityIssue list" where
  "reference_issues [] = []"
| "reference_issues (issue # issues) =
     (if amb_type issue = ''Subjective term'' then reference_issues issues
      else if amb_type issue = ''Non-testable statement'' then reference_issues issues
      else if amb_type issue = ''Undefined reference'' then issue # reference_issues issues
      else reference_issues issues)"

definition calculate_ambiguity_score :: "AmbiguityIssue list \<Rightarrow> string \<Rightarrow> AmbiguityAnalysis" where
  "calculate_ambiguity_score issues text_in =
     (if issues = [] then
        \<lparr>amb_score = 0, confidence = ''HIGH'',
         amb_components = \<lparr>lexical = 0, testability = 0, references = 0\<rparr>\<rparr>
      else
        (let lexical_score =
               calculate_component_score (lexical_issues issues) text_in ''lexical'';
             testability_score =
               calculate_component_score (testability_issues issues) text_in ''testability'';
             reference_score =
               calculate_component_score (reference_issues issues) text_in ''references'';
             overall_score =
               lexical_score * 0.3 + testability_score * 0.5 + reference_score * 0.2
         in \<lparr>amb_score = py_round1 overall_score,
             confidence = calculate_confidence text_in issues,
             amb_components =
               \<lparr>lexical = py_round1 lexical_score,
                testability = py_round1 testability_score,
                references = py_round1 reference_score\<rparr>\<rparr>))"

section \<open>assumption_detector.py\<close>

text \<open>The dataclass \<open>AssumptionIssue\<close> (fields \<open>type\<close>, \<open>category\<close>, \<open>text\<close>, \<open>message\<close>,
  \<open>assumption\<close>).\<close>

record AssumptionIssue =
  asm_type :: string
  category :: string
  asm_text :: string
  asm_message :: string
  assumption :: string

definition ASSUMPTION_WEIGHTS :: "(string \<times> (string \<times> real) list) list" where
  "ASSUMPTION_WEIGHTS =
    [(''Environment'',
        [(''UI interaction'', 14), (''browsers'', 12), (''devices'', 12),
         (''operating_systems'', 11), (''network'', 10), (''display'', 9),
         (''databases'', 15), (''apis'', 12), (''cloud_providers'', 11)]),
     (''Data'',
        [(''user_exists'', 10), (''credentials_exist'', 11), (''form_filled'', 8),
         (''data_entered'', 9), (''record_exists'', 9), (''data_exists'', 8),
         (''file_exists'', 9), (''recipient_exists'', 8), (''sender_exists'', 8),
         (''task_exists'', 8), (''item_exists'', 7), (''issue_exists'', 8)]),
     (''State'',
        [(''user_logged_in'', 13), (''permissions_granted'', 14), (''condition_exists'', 9),
         (''error_trigger'', 10), (''failure_condition'', 9), (''admin_role'', 11),
         (''manager_role'', 10), (''user_role'', 10), (''account_active'', 12),
         (''form_valid'', 8), (''space_available'', 8)])]"

definition action_patterns :: "(string \<times> string list) list" where
  "action_patterns =
    [(''login'', [''user_exists'', ''credentials_exist'']),
     (''log in'', [''user_exists'', ''credentials_exist'']),
     (''sign in'', [''user_exists'', ''credentials_exist'']),
     (''authenticate'', [''user_exists'', ''credentials_exist'']),
     (''logout'', [''user_logged_in'']),
     (''log out'', [''user_logged_in'']),
     (''sign out'', [''user_logged_in'']),
     (''navigate'', [''user_logged_in'']),
     (''access'', [''user_logged_in'', ''permissions_granted'']),
     (''view'', [''user_logged_in'', ''permissions_granted'']),
     (''see'', [''user_logged_in'', ''permissions_granted'']),
     (''visit'', [''user_logged_in'']),
     (''go to'', [''user_logged_in'']),
     (''open'', [''user_logged_in'']),
     (''enter'', [''user_logged_in'']),
     (''browse'', [''user_logged_in'']),
     (''submit'', [''form_filled'', ''user_logged_in'']),
     (''save'', [''data_entered'', ''user_logged_in'']),
     (''update'', [''record_exists'', ''user_logged_in'', ''permissions_granted'']),
     (''delete'', [''record_exists'', ''user_logged_in'', ''permissions_granted'']),
     (''edit'', [''record_exists'', ''user_logged_in'', ''permissions_granted'']),
     (''modify'', [''record_exists'', ''user_logged_in'', ''permissions_granted'']),
     (''create'', [''user_logged_in'', ''permissions_granted'']),
     (''add'', [''user_logged_in'', ''permissions_granted'']),
     (''insert'', [''user_logged_in'', ''permissions_granted'']),
     (''search'', [''user_logged_in'']),
     (''filter'', [''user_logged_in'']),
     (''sort'', [''user_logged_in'']),
     (''find'', [''user_logged_in'']),
     (''query'', [''user_logged_in'']),
     (''lookup'', [''user_logged_in'']),
     (''verify'', [''condition_exists'', ''user_logged_in'']),
     (''check'', [''condition_exists'', ''user_logged_in'']),
     (''validate'', [''data_exists'', ''user_logged_in'']),
     (''confirm'', [''condition_exists'', ''user_logged_in'']),
     (''ensure'', [''condition_exists'', ''user_logged_in'']),
     (''assert'', [''condition_exists'', ''user_logged_in'']),
     (''test'', [''condition_exists'', ''user_logged_in'']),
     (''upload'', [''file_exists'', ''user_logged_in'']),
     (''download'', [''file_exists'', ''user_logged_in'', ''permissions_granted'']),
     (''export'', [''data_exists'', ''user_logged_in'']),
     (''import'', [''file_exists'', ''user_logged_in'', ''permissions_granted'']),
     (''attach'', [''file_exists'', ''user_logged_in'']),
     (''share'', [''file_exists'', ''user_logged_in'', ''permissions_granted'']),
     (''send'', [''recipient_exists'', ''user_logged_in'']),
     (''receive'', [''sender_exists'']),
     (''message'', [''communication_setup'']),
     (''email'', [''recipient_exists'', ''user_logged_in'']),
     (''notify'', [''recipient_exists'', ''user_logged_in'']),
     (''contact'', [''recipient_exists'', ''user_logged_in'']),
     (''communicate'', [''communication_setup'']),
     (''admin'', [''admin_role'', ''user_logged_in'']),
     (''manager'', [''manager_role'', ''user_logged_in'']),
     (''administrator'', [''admin_role'', ''user_logged_in'']),
     (''supervisor'', [''manager_role'', ''user_logged_in'']),
     (''error'', [''error_trigger'']),
     (''fail'', [''failure_condition'']),
     (''crash'', [''error_trigger'']),
     (''break'', [''error_trigger'']),
     (''handle'', [''error_trigger'']),
     (''recover'', [''failure_condition'']),
     (''configure'', [''admin_role'', ''user_logged_in'']),
     (''setup'', [''admin_role'', ''user_logged_in'']),
     (''customize'', [''user_logged_in'']),
     (''personalize'', [''user_logged_in'']),
     (''settings'', [''user_logged_in'']),
     (''preferences'', [''user_logged_in'']),
     (''report'', [''data_exists'', ''user_logged_in'', ''permissions_granted'']),
     (''analytics'', [''data_exists'', ''user_logged_in'', ''permissions_granted'']),
     (''dashboard'', [''user_logged_in'']),
     (''metrics'', [''data_exists'', ''user_logged_in'', ''permissions_granted'']),
     (''statistics'', [''data_exists'', ''user_logged_in'', ''permissions_granted'']),
     (''integrate'', [''external_service_exists'']),
     (''connect'', [''external_service_exists'']),
     (''sync'', [''external_service_exists'']),
     (''api'', [''api_access_configured'']),
     (''webhook'', [''webhook_configured'']),
     (''callback'', [''callback_configured''])]"

definition assumption_descriptions :: "(string \<times> string) list" where
  "assumption_descriptions =
    [(''user_exists'', ''Valid test user exists in the system''),
     (''credentials_exist'', ''User credentials are available and valid''),
     (''user_logged_in'', ''User is already authenticated/logged in''),
     (''permissions_granted'', ''User has necessary permissions for the action''),
     (''form_filled'', ''Form is already filled with valid data''),
     (''data_entered'', ''Required data has been entered''),
     (''record_exists'', ''Target record exists in the system''),
     (''condition_exists'', ''Condition to verify is present''),
     (''data_exists'', ''Required data exists for validation''),
     (''error_trigger'', ''Error condition can be triggered''),
     (''failure_condition'', ''Failure scenario can be reproduced''),
     (''admin_role'', ''Admin user role is available''),
     (''manager_role'', ''Manager user role is available''),
     (''user_role'', ''Regular user role is available''),
     (''file_exists'', ''Required file exists for the operation''),
     (''recipient_exists'', ''Message recipient exists''),
     (''sender_exists'', ''Message sender exists''),
     (''communication_setup'', ''Communication channel is configured''),
     (''external_service_exists'', ''External service or API is available and accessible''),
     (''api_access_configured'', ''API access credentials and endpoints are configured''),
     (''webhook_configured'', ''Webhook endpoints are set up and accessible''),
     (''callback_configured'', ''Callback mechanisms are properly configured'')]"

definition environment_indicators :: "string list" where
  "environment_indicators =
    [''browser'', ''chrome'', ''firefox'', ''safari'', ''edge'',
     ''mobile'', ''desktop'', ''tablet'', ''ios'', ''android'',
     ''windows'', ''mac'', ''linux'', ''device'', ''network'']"

text \<open>\<open>_is_assumption_explicit\<close>.\<close>

definition explicit_indicators :: "(string \<times> string list) list" where
  "explicit_indicators =
    [(''user_exists'', [''user exists'', ''test user'', ''valid user'']),
     (''credentials_exist'', [''credentials'', ''password'', ''login details'']),
     (''user_logged_in'', [''logged in'', ''authenticated'', ''signed in'']),
     (''permissions_granted'', [''permission'', ''authorized'', ''access granted'']),
     (''form_filled'', [''filled'', ''entered'', ''completed'']),
     (''data_entered'', [''entered'', ''provided'', ''input'']),
     (''record_exists'', [''exists'', ''available'', ''present'']),
     (''condition_exists'', [''condition'', ''scenario'', ''case'']),
     (''data_exists'', [''data exists'', ''available data'']),
     (''error_trigger'', [''error occurs'', ''error condition'']),
     (''failure_condition'', [''failure'', ''error case''])]"

definition is_assumption_explicit :: "string \<Rightarrow> string \<Rightarrow> bool" where
  "is_assumption_explicit text_in assumption_key =
     contains_any text_in (dict_get explicit_indicators assumption_key [])"

text \<open>\<open>_get_assumption_category\<close>.\<close>

definition assumption_category_mapping :: "(string \<times> string) list" where
  "assumption_category_mapping =
    [(''user_exists'', ''Data''), (''credentials_exist'', ''Data''),
     (''user_logged_in'', ''State''), (''permissions_granted'', ''State''),
     (''form_filled'', ''Data''), (''data_entered'', ''Data''),
     (''record_exists'', ''Data''), (''condition_exists'', ''State''),
     (''data_exists'', ''Data''), (''error_trigger'', ''State''),
     (''failure_condition'', ''State''), (''admin_role'', ''State''),
     (''manager_role'', ''State''), (''user_role'', ''State''),
     (''file_exists'', ''Data''), (''recipient_exists'', ''Data''),
     (''sender_exists'', ''Data''), (''communication_setup'', ''Environment''),
     (''external_service_exists'', ''Environment''),
     (''api_access_configured'', ''Environment''),
     (''webhook_configured'', ''Environment''),
     (''callback_configured'', ''Environment'')]"

definition get_assumption_category :: "string \<Rightarrow> string" where
  "get_assumption_category assumption_key =
     dict_get assumption_category_mapping assumption_key ''Unknown''"

text \<open>\<open>_detect_action_assumptions\<close>: the inner loop over the keys of one action, then
  the loop over the table.\<close>

fun action_issues :: "string \<Rightarrow> string \<Rightarrow> string list \<Rightarrow> AssumptionIssue list" where
  "action_issues text_lower action [] = []"
| "action_issues text_lower action (assumption_key # assumptions) =
     (if \<not> is_assumption_explicit text_lower assumption_key
      then \<lparr>asm_type = ''Action assumption'',
            category = get_assumption_category assumption_key,
            asm_text = action,
            asm_message = ''Action '' @ quote action @ '' implies assumption'',
            assumption = dict_get assumption_descriptions assumption_key assumption_key\<rparr>
             # action_issues text_lower action assumptions
      else action_issues text_lower action assumptions)"

fun actions_loop :: "string \<Rightarrow> (string \<times> string list) list \<Rightarrow> AssumptionIssue list" where
  "actions_loop text_lower [] = []"
| "actions_loop text_lower ((action, assumptions) # rest) =
     (if contains text_lower action
      then action_issues text_lower action assumptions @ actions_loop text_lower rest
      else actions_loop text_lower rest)"

definition detect_action_assumptions :: "Doc \<Rightarrow> string \<Rightarrow> AssumptionIssue list" where
  "detect_action_assumptions doc original_text =
     actions_loop (lower original_text) action_patterns"

text \<open>\<open>_detect_environment_assumptions\<close>.\<close>

definition detect_environment_assumptions :: "string \<Rightarrow> AssumptionIssue list" where
  "detect_environment_assumptions text_in =
     (let text_lower = lower text_in;
          has_ui_action = contains_any text_lower
            [''click'', ''type'', ''select'', ''scroll'', ''hover'', ''tap'']
      in if has_ui_action \<and> \<not> contains_any text_lower environment_indicators
         then [\<lparr>asm_type = ''Environment assumption'',
                category = ''Environment'',
                asm_text = ''UI interaction'',
                asm_message = ''UI interaction without environment specification'',
                assumption = ''Browser, device, or platform is specified''\<rparr>]
         else [])"

text \<open>\<open>_has_user_context\<close>, \<open>_has_data_context\<close>, \<open>_detect_context_assumptions\<close>.\<close>

definition has_user_context :: "string \<Rightarrow> bool" where
  "has_user_context text_in =
     contains_any text_in
       [''user'', ''login'', ''authenticate'', ''sign in'', ''logged in'',
        ''account'', ''profile'', ''session'']"

definition has_data_context :: "string \<Rightarrow> bool" where
  "has_data_context text_in =
     contains_any text_in
       [''data'', ''record'', ''entry'', ''information'', ''content'',
        ''database'', ''exists'', ''available'', ''present'']"

definition detect_context_assumptions :: "string \<Rightarrow> AssumptionIssue list" where
  "detect_context_assumptions text_in =
     (let text_lower = lower text_in in
      (if contains_any text_lower [''profile'', ''settings'', ''account'', ''dashboard'']
          \<and> \<not> has_user_context text_lower
       then [\<lparr>asm_type = ''Context assumption'',
              category = ''State'',
              asm_text = ''User-specific action'',
              asm_message = ''User-specific action without user context'',
              assumption = ''User is logged in and authenticated''\<rparr>]
       else [])
      @ (if contains_any text_lower [''search'', ''filter'', ''sort'', ''export'']
            \<and> \<not> has_data_context text_lower
         then [\<lparr>asm_type = ''Context assumption'',
                category = ''Data'',
                asm_text = ''Data operation'',
                asm_message = ''Data operation without data context'',
                assumption = ''Required data exists in the system''\<rparr>]
         else []))"

text \<open>\<open>detect_assumptions\<close>, with the pipeline as a parameter.\<close>

definition detect_assumptions :: "(string \<Rightarrow> Doc) \<Rightarrow> string \<Rightarrow> AssumptionIssue list" where
  "detect_assumptions nlp text_in =
     (let doc = nlp (lower text_in) in
      detect_action_assumptions doc text_in
      @ detect_environment_assumptions text_in
      @ detect_context_assumptions text_in)"

subsection \<open>Assumption scoring\<close>

text \<open>\<open>_classify_assumption_strength\<close>.\<close>

definition strong_patterns :: "(string \<times> string list) list" where
  "strong_patterns =
    [(''Environment'',
        [''browser'', ''device'', ''operating system'', ''database'', ''api'', ''network'',
         ''server'', ''infrastructure'', ''platform'', ''environment'']),
     (''State'',
        [''user logged in'', ''authenticated'', ''authorized'', ''permissions granted'',
         ''admin role'', ''session active'', ''account active'', ''system configured'']),
     (''Data'',
        [''user exists'', ''credentials exist'', ''test data prepared'', ''database populated'',
         ''external service available'', ''api endpoint configured''])]"

definition weak_patterns :: "(string \<times> string list) list" where
  "weak_patterns =
    [(''Environment'', [''internet connection'', ''power available'', ''display resolution'']),
     (''State'', [''user preferences set'', ''notifications enabled'', ''theme selected'']),
     (''Data'', [''sample data'', ''demo content'', ''placeholder text'', ''optional fields''])]"

definition classify_assumption_strength :: "AssumptionIssue \<Rightarrow> string \<Rightarrow> string" where
  "classify_assumption_strength issue component_type =
     (let assumption_text = lower (assumption issue) in
      if contains_any assumption_text (dict_get strong_patterns component_type [])
        then ''STRONG''
      else if contains_any assumption_text (dict_get weak_patterns component_type [])
        then ''WEAK''
      else if component_type = ''Environment'' then ''STRONG''
      else if component_type = ''State'' then ''STRONG''
      else ''WEAK'')"

text \<open>\<open>_get_assumption_type_weight\<close>.\<close>

definition key_mappings :: "(string \<times> string) list" where
  "key_mappings =
    [(''user exists'', ''user_exists''), (''credentials exist'', ''credentials_exist''),
     (''user logged in'', ''user_logged_in''), (''permissions granted'', ''permissions_granted''),
     (''form filled'', ''form_filled''), (''data entered'', ''data_entered''),
     (''record exists'', ''record_exists''), (''data exists'', ''data_exists''),
     (''condition exists'', ''condition_exists''), (''file exists'', ''file_exists''),
     (''recipient exists'', ''recipient_exists''), (''sender exists'', ''sender_exists''),
     (''task exists'', ''task_exists''), (''item exists'', ''item_exists''),
     (''issue exists'', ''issue_exists''), (''error trigger'', ''error_trigger''),
     (''failure condition'', ''failure_condition''), (''admin role'', ''admin_role''),
     (''manager role'', ''manager_role''), (''user role'', ''user_role''),
     (''account active'', ''account_active''), (''form valid'', ''form_valid''),
     (''space available'', ''space_available'')]"

fun first_phrase :: "(string \<times> string) list \<Rightarrow> string \<Rightarrow> string option" where
  "first_phrase [] s = None"
| "first_phrase ((phrase, k) # rest) s =
     (if contains s phrase then Some k else first_phrase rest s)"

definition get_assumption_type_weight :: "AssumptionIssue \<Rightarrow> (string \<times> real) list \<Rightarrow> real" where
  "get_assumption_type_weight issue type_weights =
     (let assumption_key = lower (assumption issue) in
      case first_phrase key_mappings assumption_key of
        Some k \<Rightarrow> dict_get type_weights k 15
      | None \<Rightarrow>
          if contains_any assumption_key
               [''browser'', ''chrome'', ''firefox'', ''safari'', ''edge'']
            then dict_get type_weights ''browsers'' 20
          else if contains_any assumption_key [''mobile'', ''desktop'', ''tablet'', ''phone'']
            then dict_get type_weights ''devices'' 20
          else if contains_any assumption_key
               [''ios'', ''android'', ''windows'', ''mac'', ''linux'']
            then dict_get type_weights ''operating_systems'' 18
          else if contains_any assumption_key
               [''network'', ''wifi'', ''cellular'', ''broadband'']
            then dict_get type_weights ''network'' 16
          else if contains_any assumption_key
               [''database'', ''mysql'', ''postgresql'', ''mongodb'']
            then dict_get type_weights ''databases'' 24
          else if contains_any assumption_key [''api'', ''endpoint'', ''rest'', ''graphql'']
            then dict_get type_weights ''apis'' 20
          else 15)"

text \<open>\<open>_calculate_component_with_strength\<close>: the score and the strength label of one
  category. Its \<open>text_length\<close> is the constant 50.\<close>

definition assumption_issue_weight :: "AssumptionIssue \<Rightarrow> string \<Rightarrow> real" where
  "assumption_issue_weight issue component_type =
     (case map_of ASSUMPTION_WEIGHTS component_type of
        Some type_weights \<Rightarrow> get_assumption_type_weight issue type_weights
      | None \<Rightarrow> 10)"

definition calculate_component_with_strength ::
    "AssumptionIssue list \<Rightarrow> string \<Rightarrow> real \<times> string" where
  "calculate_component_with_strength component_issues component_type =
     (if component_issues = [] then (0, ''NONE'')
      else
        (let has_strong_assumption =
               list_ex (\<lambda>issue. classify_assumption_strength issue component_type = ''STRONG'')
                 component_issues;
             has_weak_assumption =
               list_ex (\<lambda>issue. classify_assumption_strength issue component_type \<noteq> ''STRONG'')
                 component_issues;
             base_score =
               sum_list (map (\<lambda>issue. assumption_issue_weight issue component_type)
                 component_issues);
             base_score =
               (if length component_issues > 1
                then base_score + real (length component_issues - 1) * 5 else base_score);
             text_length = (50 :: nat);
             density_factor = real (length component_issues) / real (max text_length 5);
             density_score =
               (if component_type = ''State'' then min 30 (density_factor * 60)
                else if component_type = ''Environment'' then min 25 (density_factor * 50)
                else min 20 (density_factor * 40));
             raw_score = base_score + density_score;
             final_score = (if raw_score > 70 then 70 + (raw_score - 70) * 0.4 else raw_score);
             final_score = min 100 final_score;
             strength =
               (if has_strong_assumption then ''STRONG''
                else if has_weak_assumption then ''WEAK'' else ''UNKNOWN'')
         in (final_score, strength)))"

text \<open>\<open>calculate_assumption_score\<close>.\<close>

record ComponentStrength =
  count :: nat
  strength :: string

record AssumptionComponents =
  environment :: ComponentStrength
  data :: ComponentStrength
  state :: ComponentStrength

record AssumptionAnalysis =
  asm_score :: real
  asm_components :: AssumptionComponents

definition calculate_assumption_score :: "AssumptionIssue list \<Rightarrow> string \<Rightarrow> AssumptionAnalysis" where
  "calculate_assumption_score issues text_in =
     (if issues = [] then
        \<lparr>asm_score = 0,
         asm_components =
           \<lparr>environment = \<lparr>count = 0, strength = ''NONE''\<rparr>,
            data = \<lparr>count = 0, strength = ''NONE''\<rparr>,
            state = \<lparr>count = 0, strength = ''NONE''\<rparr>\<rparr>\<rparr>
      else
        (let environment_issues = filter (\<lambda>issue. category issue = ''Environment'') issues;
             data_issues = filter (\<lambda>issue. category issue = ''Data'') issues;
             state_issues = filter (\<lambda>issue. category issue = ''State'') issues;
             (environment_score, environment_strength) =
               calculate_component_with_strength environment_issues ''Environment'';
             (data_score, data_strength) =
               calculate_component_with_strength data_issues ''Data'';
             (state_score, state_strength) =
               calculate_component_with_strength state_issues ''State'';
             overall_score =
               environment_score * 0.35 + data_score * 0.25 + state_score * 0.4
         in \<lparr>asm_score = py_round1 overall_score,
             asm_components =
               \<lparr>environment =
                  \<lparr>count = length environment_issues, strength = environment_strength\<rparr>,
                data = \<lparr>count = length data_issues, strength = data_strength\<rparr>,
                state = \<lparr>count = length state_issues, strength = state_strength\<rparr>\<rparr>\<rparr>))"

section \<open>scorer.py: the readiness aggregator\<close>

datatype ReadinessLevel = READY | NEEDS_CLARIFICATION | HIGH_RISK

text \<open>
  \<open>RequirementScorer.calculate_readiness_score\<close>. A negative score makes
  \<open>score ** 0.8\<close> a complex number, and \<open>min(80, complex)\<close> raises TypeError.
\<close>

definition calculate_readiness_score :: "real \<Rightarrow> real \<Rightarrow> string \<Rightarrow> py_error + real" where
  "calculate_readiness_score ambiguity_score assumption_score text_in =
    (let (ambiguity_weight, assumption_weight) =
           (if assumption_score > ambiguity_score then (0.2, 0.8)
            else if ambiguity_score > 60 then (0.7, 0.3)
            else (0.4, 0.6));
         assumption_weight =
           (if assumption_score > 70 then assumption_weight * 1.5 else assumption_weight);
         ambiguity_weight =
           (if ambiguity_score > 70 then ambiguity_weight * 1.3 else ambiguity_weight);
         text_length = (if text_in = [] then 50 else length (str_split text_in));
         complexity_factor =
           (if text_length < 10 then 1.2 else if text_length > 100 then 0.9 else 1.0)
     in if ambiguity_score < 0 then Inl TypeError
        else if assumption_score < 0 then Inl TypeError
        else
          (let ambiguity_impact = min 80 (ambiguity_score powr 0.8) * ambiguity_weight;
               assumption_impact = min 85 (assumption_score powr 0.9) * assumption_weight;
               total_impact = ambiguity_impact + assumption_impact;
               readiness = 100 / (1 + total_impact / 10);
               readiness = readiness * complexity_factor;
               readiness =
                 (if total_impact > 120 then max (readiness * 0.8) 10
                  else if total_impact > 100 then max (readiness * 0.9) 15
                  else readiness)
           in Inr (max 0 (min 95 readiness))))"

text \<open>\<open>RequirementScorer.classify_readiness\<close>.\<close>

definition classify_readiness :: "real \<Rightarrow> ReadinessLevel" where
  "classify_readiness readiness_score =
     (if readiness_score \<ge> 70 then READY
      else if readiness_score \<ge> 40 then NEEDS_CLARIFICATION
      else HIGH_RISK)"

subsection \<open>Formatting the issues, impact texts and clarifying questions\<close>

text \<open>
  The scorer handles both kinds of issue in one list and tells them apart by
  \<open>hasattr(issue, 'category')\<close>.
\<close>

datatype Issue = Ambiguity AmbiguityIssue | Assumption AssumptionIssue

text \<open>
  A formatted issue is a dictionary with the keys \<open>type\<close>, \<open>message\<close>, \<open>impact\<close> and, for
  an assumption, \<open>category\<close> and \<open>assumption\<close>.
\<close>

record FormattedIssue =
  f_type :: string
  f_message :: string
  f_category :: "string option"
  f_assumption :: "string option"
  f_impact :: string

text \<open>\<open>_get_ambiguity_impact\<close>.\<close>

datatype impact_entry = ImpactDict "(string \<times> string) list" | ImpactText string

definition impact_map :: "(string \<times> impact_entry) list" where
  "impact_map =
    [(''Subjective term'', ImpactDict
        [(''fast'', ''May cause inconsistent test expectations and flaky performance tests''),
         (''slow'', ''May lead to unclear acceptance criteria for response times''),
         (''secure'', ''May result in inadequate security testing coverage''),
         (''user-friendly'', ''May cause subjective interpretation of usability requirements''),
         (''reliable'', ''May lead to undefined reliability and stability expectations''),
         (''scalable'', ''May result in unclear performance scaling requirements''),
         (''optimal'', ''May cause ambiguous optimization goals and success criteria''),
         (''default'', ''May lead to subjective interpretation and inconsistent testing'')]),
     (''Weak modality'', ImpactDict
        [(''should'', ''Creates uncertainty about whether this is a requirement or suggestion''),
         (''could'', ''May result in optional implementation and inconsistent behavior''),
         (''might'', ''Creates ambiguity about expected behavior under different conditions''),
         (''may'', ''May lead to inconsistent implementation across different scenarios''),
         (''default'', ''Creates uncertainty about requirement priority and implementation'')]),
     (''Undefined reference'', ImpactText
        ''May cause confusion about what specific element or condition is being referenced''),
     (''Non-testable statement'', ImpactText
        ''Makes it impossible to create objective test cases and acceptance criteria'')]"

definition get_ambiguity_impact :: "AmbiguityIssue \<Rightarrow> string" where
  "get_ambiguity_impact issue =
     (let issue_type = amb_type issue; issue_text = lower (amb_text issue) in
      case map_of impact_map issue_type of
        Some (ImpactDict d) \<Rightarrow>
          dict_get d issue_text (dict_get d ''default'' ''May cause testing ambiguity'')
      | Some (ImpactText t) \<Rightarrow> t
      | None \<Rightarrow> ''May lead to unclear requirements and inconsistent testing'')"

text \<open>\<open>_get_assumption_impact\<close>; \<open>replace_underscores\<close> is \<open>pattern.replace('_', ' ')\<close>.\<close>

definition replace_underscores :: "string \<Rightarrow> string" where
  "replace_underscores s = map (\<lambda>c. if c = CHR ''_'' then CHR '' '' else c) s"

definition critical_patterns :: "string list" where
  "critical_patterns =
    [''user exists'', ''credentials exist'', ''user logged in'', ''permissions granted'',
     ''browser'', ''database'', ''api'', ''server'', ''environment'']"

definition category_impacts :: "(string \<times> string) list" where
  "category_impacts =
    [(''Environment'', ''May cause test failures in different environments or platforms''),
     (''State'', ''May lead to flaky tests due to unpredictable system state''),
     (''Data'', ''May result in test data inconsistencies and unreliable test execution'')]"

definition get_assumption_impact :: "AssumptionIssue \<Rightarrow> string" where
  "get_assumption_impact issue =
     (let assumption_text = lower (assumption issue) in
      case List.find (contains assumption_text) critical_patterns of
        Some pattern \<Rightarrow>
          ''Critical assumption - missing '' @ replace_underscores pattern
            @ '' will cause test automation to fail''
      | None \<Rightarrow>
          if contains assumption_text ''data'' \<or> contains assumption_text ''record''
            then ''May cause test data setup issues and inconsistent test results''
          else if contains assumption_text ''configuration'' \<or> contains assumption_text ''setup''
            then ''May lead to environment-specific test failures and deployment issues''
          else dict_get category_impacts (category issue)
                 ''May lead to unexpected test behavior and automation failures'')"

text \<open>\<open>_format_issues_with_impact\<close>.\<close>

definition format_issue_with_impact :: "Issue \<Rightarrow> FormattedIssue" where
  "format_issue_with_impact issue =
     (case issue of
        Assumption a \<Rightarrow>
          \<lparr>f_type = ''Assumption'', f_message = asm_message a,
           f_category = Some (category a), f_assumption = Some (assumption a),
           f_impact = get_assumption_impact a\<rparr>
      | Ambiguity a \<Rightarrow>
          \<lparr>f_type = ''Ambiguity'', f_message = amb_message a,
           f_category = None, f_assumption = None,
           f_impact = get_ambiguity_impact a\<rparr>)"

definition format_issues_with_impact :: "Issue list \<Rightarrow> FormattedIssue list" where
  "format_issues_with_impact issues = map format_issue_with_impact issues"

text \<open>\<open>_get_ambiguity_question\<close> and \<open>_get_assumption_question\<close>: the first key of the
  table that occurs in the text decides.\<close>

definition ambiguity_question_map :: "(string \<times> string) list" where
  "ambiguity_question_map =
    [(''subjective term'',
        ''What specific, measurable criteria define success for this requirement?''),
     (''weak modality'', ''Is this a mandatory requirement or optional behavior?''),
     (''undefined reference'', ''What specific element or condition does this refer to?''),
     (''non-testable'', ''What specific, observable behavior would indicate success?'')]"

definition get_ambiguity_question :: "FormattedIssue \<Rightarrow> string" where
  "get_ambiguity_question issue =
     (case first_phrase ambiguity_question_map (lower (f_message issue)) of
        Some question \<Rightarrow> question
      | None \<Rightarrow> ''What specific criteria should be used to evaluate this requirement?'')"

definition assumption_question_map :: "(string \<times> string) list" where
  "assumption_question_map =
    [(''user exists'', ''What test user accounts should be prepared?''),
     (''credentials'', ''What user credentials are needed for testing?''),
     (''logged in'', ''Should the user be pre-authenticated for this test?''),
     (''permissions'', ''What user roles and permissions are required?''),
     (''browser'', ''Which browsers and versions should be supported?''),
     (''database'', ''What database state should exist before testing?''),
     (''environment'', ''What environmental conditions are required?''),
     (''data'', ''What test data should be prepared?'')]"

definition get_assumption_question :: "FormattedIssue \<Rightarrow> string" where
  "get_assumption_question issue =
     (let assumption_text = lower (case f_assumption issue of Some a \<Rightarrow> a | None \<Rightarrow> []) in
      case first_phrase assumption_question_map assumption_text of
        Some question \<Rightarrow> question
      | None \<Rightarrow> ''What specific conditions or data are required for this test?'')"

text \<open>
  \<open>_generate_clarifying_questions\<close>: the two standard questions, then the loop over the
  issues with the list of questions as its state, then \<open>questions[:8]\<close>.
\<close>

definition standard_questions :: "string list" where
  "standard_questions =
    [''What are the exact preconditions required for this test?'',
     ''What is the expected result and how should it be verified?'']"

definition add_question :: "string list \<Rightarrow> string \<Rightarrow> string list" where
  "add_question questions question =
     (if question \<noteq> [] \<and> \<not> List.member questions question
      then questions @ [question] else questions)"

fun questions_loop :: "string list \<Rightarrow> FormattedIssue list \<Rightarrow> string list" where
  "questions_loop questions [] = questions"
| "questions_loop questions (issue # issues) =
     (if f_type issue = ''Ambiguity''
        then questions_loop (add_question questions (get_ambiguity_question issue)) issues
      else if f_type issue = ''Assumption''
        then questions_loop (add_question questions (get_assumption_question issue)) issues
      else questions_loop questions issues)"

definition generate_clarifying_questions :: "FormattedIssue list \<Rightarrow> string \<Rightarrow> string list" where
  "generate_clarifying_questions issues text_in =
     take 8 (questions_loop standard_questions issues)"

subsection \<open>The analysis entry points\<close>

fun level_value :: "ReadinessLevel \<Rightarrow> string" where
  "level_value READY = ''Ready''"
| "level_value NEEDS_CLARIFICATION = ''Needs clarification''"
| "level_value HIGH_RISK = ''High risk for automation''"

record AnalysisResult =
  ambiguity :: AmbiguityAnalysis
  assumptions :: AssumptionAnalysis
  readiness_score :: real
  readiness_level :: string
  issues :: "FormattedIssue list"
  clarifying_questions :: "string list"

text \<open>\<open>RequirementScorer.analyze_text\<close>; both detectors load the same pipeline \<open>nlp\<close>.\<close>

definition analyze_text :: "(string \<Rightarrow> Doc) \<Rightarrow> string \<Rightarrow> py_error + AnalysisResult" where
  "analyze_text nlp text_in =
     (let ambiguity_issues = detect_ambiguities nlp text_in;
          assumption_issues = detect_assumptions nlp text_in;
          ambiguity_analysis = calculate_ambiguity_score ambiguity_issues text_in;
          assumption_analysis = calculate_assumption_score assumption_issues text_in
      in case calculate_readiness_score (amb_score ambiguity_analysis)
                (asm_score assumption_analysis) text_in of
           Inl e \<Rightarrow> Inl e
         | Inr score \<Rightarrow>
             (let level = classify_readiness score;
                  formatted = format_issues_with_impact
                    (map Ambiguity ambiguity_issues @ map Assumption assumption_issues);
                  suggestions = generate_clarifying_questions formatted text_in
              in Inr \<lparr>ambiguity = ambiguity_analysis,
                      assumptions = assumption_analysis,
                      readiness_score = py_round1 score,
                      readiness_level = level_value level,
                      issues = formatted,
                      clarifying_questions = suggestions\<rparr>))"

text \<open>
  \<open>OptimizedRequirementScorer.get_score_breakdown\<close> hands the values returned by
  \<open>calculate_ambiguity_score\<close> and \<open>calculate_assumption_score\<close>, which are dictionaries,
  to \<open>calculate_readiness_score\<close> and to \<open>round\<close>. To follow that call the arguments are
  Python values of either kind: \<open>>\<close> and \<open>round\<close> raise TypeError on a dictionary.
\<close>

datatype py_value =
    PyFloat real
  | PyAmbiguityDict AmbiguityAnalysis
  | PyAssumptionDict AssumptionAnalysis

definition py_gt :: "py_value \<Rightarrow> py_value \<Rightarrow> py_error + bool" where
  "py_gt x y = (case (x, y) of (PyFloat a, PyFloat b) \<Rightarrow> Inr (a > b) | _ \<Rightarrow> Inl TypeError)"

definition py_round :: "py_value \<Rightarrow> py_error + real" where
  "py_round x = (case x of PyFloat a \<Rightarrow> Inr (py_round1 a) | _ \<Rightarrow> Inl TypeError)"

text \<open>\<open>calculate_readiness_score\<close> on Python values: its first statement compares the
  two arguments.\<close>

definition calculate_readiness_score_value ::
    "py_value \<Rightarrow> py_value \<Rightarrow> string \<Rightarrow> py_error + real" where
  "calculate_readiness_score_value ambiguity_score assumption_score text_in =
     (case py_gt assumption_score ambiguity_score of
        Inl e \<Rightarrow> Inl e
      | Inr _ \<Rightarrow>
          (case (ambiguity_score, assumption_score) of
             (PyFloat a, PyFloat s) \<Rightarrow> calculate_readiness_score a s text_in
           | _ \<Rightarrow> Inl TypeError))"

record ScoreBreakdown =
  bd_text :: string
  bd_ambiguity_score :: real
  bd_ambiguity_issue_count :: nat
  bd_ambiguity_issues :: "string list"
  bd_assumption_score :: real
  bd_assumption_issue_count :: nat
  bd_assumption_categories :: "string list"
  bd_readiness_score :: real
  bd_readiness_level :: string

text \<open>
  \<open>get_score_breakdown\<close>: the two score functions are called without a text, so with
  their default \<open>""\<close>. The returned dictionary is modelled without its \<open>formula\<close> string.
\<close>

definition get_score_breakdown :: "(string \<Rightarrow> Doc) \<Rightarrow> string \<Rightarrow> py_error + ScoreBreakdown" where
  "get_score_breakdown nlp text_in =
     (let ambiguity_issues = detect_ambiguities nlp text_in;
          assumption_issues = detect_assumptions nlp text_in;
          ambiguity_score = PyAmbiguityDict (calculate_ambiguity_score ambiguity_issues []);
          assumption_score = PyAssumptionDict (calculate_assumption_score assumption_issues [])
      in case calculate_readiness_score_value ambiguity_score assumption_score [] of
           Inl e \<Rightarrow> Inl e
         | Inr score \<Rightarrow>
             (case py_round ambiguity_score of
                Inl e \<Rightarrow> Inl e
              | Inr rounded_ambiguity \<Rightarrow>
                  (case py_round assumption_score of
                     Inl e \<Rightarrow> Inl e
                   | Inr rounded_assumption \<Rightarrow>
                       Inr \<lparr>bd_text = text_in,
                            bd_ambiguity_score = rounded_ambiguity,
                            bd_ambiguity_issue_count = length ambiguity_issues,
                            bd_ambiguity_issues = map amb_type ambiguity_issues,
                            bd_assumption_score = rounded_assumption,
                            bd_assumption_issue_count = length assumption_issues,
                            bd_assumption_categories = remdups (map category assumption_issues),
                            bd_readiness_score = py_round1 score,
                            bd_readiness_level = level_value (classify_readiness score)\<rparr>)))"

subsection \<open>A tokenizer for plain text\<close>

text \<open>
  Modelled from the spec: the tokenizer is the external language pipeline (spaCy), which
  is not part of the repository. The specification describes it as a black box that
  returns the tokens of the text in order, each with its text and character offset, and
  whose degraded form still splits the text but supplies empty part-of-speech and
  dependency tags. \<open>plain_nlp\<close> is that degraded tokenizer for text whose tokens are
  separated by whitespace. It is used only to run the detectors on concrete sentences made
  of words and single spaces.
\<close>

definition plain_token :: "string \<Rightarrow> nat \<Rightarrow> Token" where
  "plain_token w start = \<lparr>tok_text = w, idx = start, pos_tag = [], dep_tag = []\<rparr>"

fun plain_tokens :: "string \<Rightarrow> nat \<Rightarrow> string \<Rightarrow> nat \<Rightarrow> Token list" where
  "plain_tokens w start [] pos = (if w = [] then [] else [plain_token w start])"
| "plain_tokens w start (c # cs) pos =
     (if isspace c
      then (if w = [] then plain_tokens [] (Suc pos) cs (Suc pos)
            else plain_token w start # plain_tokens [] (Suc pos) cs (Suc pos))
      else plain_tokens (w @ [c]) start cs (Suc pos))"

definition plain_nlp :: "string \<Rightarrow> Doc" where
  "plain_nlp s = plain_tokens [] 0 s 0"

subsection \<open>The reference algorithm of the specification\<close>

text \<open>
  The readiness computation as the specification words it, on the two scores and the
  word count of the text: base weight pair, severity multipliers, complexity factor,
  bounded impacts, base readiness, safety clamps, final clamp.
\<close>

definition spec_base_weights :: "real \<Rightarrow> real \<Rightarrow> real \<times> real" where
  "spec_base_weights ambiguity_score assumption_score =
     (if assumption_score > ambiguity_score then (0.2, 0.8)
      else if ambiguity_score > 60 then (0.7, 0.3)
      else (0.4, 0.6))"

definition spec_complexity_factor :: "nat \<Rightarrow> real" where
  "spec_complexity_factor word_count =
     (if word_count < 10 then 1.2 else if word_count > 100 then 0.9 else 1.0)"

definition spec_readiness :: "real \<Rightarrow> real \<Rightarrow> nat \<Rightarrow> real" where
  "spec_readiness ambiguity_score assumption_score word_count =
     (let ambiguity_weight = fst (spec_base_weights ambiguity_score assumption_score)
            * (if ambiguity_score > 70 then 1.3 else 1);
          assumption_weight = snd (spec_base_weights ambiguity_score assumption_score)
            * (if assumption_score > 70 then 1.5 else 1);
          ambiguity_impact = min 80 (ambiguity_score powr 0.8) * ambiguity_weight;
          assumption_impact = min 85 (assumption_score powr 0.9) * assumption_weight;
          total_impact = ambiguity_impact + assumption_impact;
          base = 100 / (1 + total_impact / 10) * spec_complexity_factor word_count;
          clamped =
            (if total_impact > 120 then max (base * 0.8) 10
             else if total_impact > 100 then max (base * 0.9) 15
             else base)
      in max 0 (min 95 clamped))"

definition word_count :: "string \<Rightarrow> nat" where
  "word_count s = length (str_split s)"

subsection \<open>The question list as the specification words it\<close>

text \<open>
  The specification describes the list of clarifying questions as the two standard
  questions followed by the issue-specific ones, order-preserving, first match wins,
  de-duplicated by string equality, cut to 8 entries. \<open>first_occurrences\<close> keeps the
  first occurrence of every element in order; \<open>candidate_questions\<close> is the question
  each issue asks for, in the order of the issues.
\<close>

fun first_occurrences :: "'a list \<Rightarrow> 'a list" where
  "first_occurrences [] = []"
| "first_occurrences (x # xs) = x # first_occurrences (filter (\<lambda>y. y \<noteq> x) xs)"

definition issue_question :: "FormattedIssue \<Rightarrow> string list" where
  "issue_question issue =
     (if f_type issue = ''Ambiguity'' then [get_ambiguity_question issue]
      else if f_type issue = ''Assumption'' then [get_assumption_question issue]
      else [])"

definition candidate_questions :: "FormattedIssue list \<Rightarrow> string list" where
  "candidate_questions formatted = concat (map issue_question formatted)"

section \<open>Auxiliary lemmas\<close>

subsection \<open>Bounds on the two powers\<close>

lemma powr_80_09_lower: "(17::real) < 80 powr 0.9"
proof -
  have a: "(80::real) powr 0.9 = (80 ^ 9) powr (1/10)"
  proof -
    have "((80::real) ^ 9) powr (1/10) = (80 powr 9) powr (1/10)"
      by (simp only: powr_numeral)
    also have "\<dots> = 80 powr (9 * (1/10))" by (rule powr_powr)
    finally show ?thesis by simp
  qed
  have b: "(17::real) = (17 ^ 10) powr (1/10)"
  proof -
    have "((17::real) ^ 10) powr (1/10) = (17 powr 10) powr (1/10)"
      by (simp only: powr_numeral)
    also have "\<dots> = 17 powr (10 * (1/10))" by (rule powr_powr)
    finally show ?thesis by simp
  qed
  have "((17::real) ^ 10) powr (1/10) < (80 ^ 9) powr (1/10)"
    by (rule powr_less_mono2) simp_all
  with a b show ?thesis by simp
qed

lemma powr_80_08_lower: "(32::real) < 80 powr 0.8"
proof -
  have a: "(80::real) powr 0.8 = (80 ^ 4) powr (1/5)"
  proof -
    have "((80::real) ^ 4) powr (1/5) = (80 powr 4) powr (1/5)"
      by (simp only: powr_numeral)
    also have "\<dots> = 80 powr (4 * (1/5))" by (rule powr_powr)
    finally show ?thesis by simp
  qed
  have b: "(32::real) = (32 ^ 5) powr (1/5)"
  proof -
    have "((32::real) ^ 5) powr (1/5) = (32 powr 5) powr (1/5)"
      by (simp only: powr_numeral)
    also have "\<dots> = 32 powr (5 * (1/5))" by (rule powr_powr)
    finally show ?thesis by simp
  qed
  have "((32::real) ^ 5) powr (1/5) < (80 ^ 4) powr (1/5)"
    by (rule powr_less_mono2) simp_all
  with a b show ?thesis by simp
qed

text \<open>With a total impact above 20 the clamped readiness stays below 40.\<close>

lemma readiness_below_40:
  fixes ti cf :: real
  assumes ti: "20 < ti" and cf: "0 < cf" "cf \<le> 1.2"
  shows "max 0 (min 95 (if ti > 120 then max (100 / (1 + ti / 10) * cf * 0.8) 10
             else if ti > 100 then max (100 / (1 + ti / 10) * cf * 0.9) 15
             else 100 / (1 + ti / 10) * cf)) < 40"
proof -
  define q where "q = 100 / (1 + ti / 10)"
  define r where "r = q * cf"
  have d: "3 < 1 + ti / 10" using ti by simp
  have "q < 100 / 3" unfolding q_def
    using d by (simp add: field_simps)
  moreover have q0: "0 < q" unfolding q_def using d by simp
  ultimately have "q * cf < 100 / 3 * 1.2"
    using cf by (intro mult_less_le_imp_less) simp_all
  then have r: "r < 40" by (simp add: r_def)
  have p: "0 \<le> r" using q0 cf by (simp add: r_def)
  have "r * 0.8 < 40" "r * 0.9 < 40"
    using r p by simp_all
  then have "max 0 (min 95 (if ti > 120 then max (r * 0.8) 10
             else if ti > 100 then max (r * 0.9) 15 else r)) < 40"
    using r by (simp add: min_def max_def)
  then show ?thesis unfolding r_def q_def .
qed

lemma high_risk_scores:
  assumes "80 \<le> a" "80 \<le> s"
  shows "\<exists>r. calculate_readiness_score a s t = Inr r \<and> classify_readiness r = HIGH_RISK"
proof -
  have na: "\<not> a < 0" and ns: "\<not> s < 0" and a60: "60 < a" and a70: "70 < a" and s70: "70 < s"
    using assms by simp_all
  have "80 powr 0.8 \<le> a powr 0.8" using assms by (intro powr_mono2) simp_all
  then have ma: "32 < min 80 (a powr 0.8)" using powr_80_08_lower by simp
  have "80 powr 0.9 \<le> s powr 0.9" using assms by (intro powr_mono2) simp_all
  then have ms: "17 < min 85 (s powr 0.9)" using powr_80_09_lower by simp
  define cf :: real where "cf = (if (if t = [] then 50 else length (str_split t)) < 10 then 1.2
       else if (if t = [] then 50 else length (str_split t)) > 100 then 0.9 else 1.0)"
  have cf: "0 < cf" "cf \<le> 1.2" by (simp_all add: cf_def)
  show ?thesis
  proof (cases "a < s")
    case True
    define ti where "ti = min 80 (a powr 0.8) * (0.2 * 1.3) + min 85 (s powr 0.9) * (0.8 * 1.5)"
    define r where "r = max 0 (min 95 (if ti > 120 then max (100 / (1 + ti / 10) * cf * 0.8) 10
             else if ti > 100 then max (100 / (1 + ti / 10) * cf * 0.9) 15
             else 100 / (1 + ti / 10) * cf))"
    have "20 < ti" unfolding ti_def using ma ms by simp
    from readiness_below_40[OF this cf] have "r < 40" unfolding r_def .
    then have c: "classify_readiness r = HIGH_RISK" by (simp add: classify_readiness_def)
    have "calculate_readiness_score a s t = Inr r"
      unfolding calculate_readiness_score_def Let_def r_def ti_def cf_def
      by (simp only: na ns a60 a70 s70 True if_True if_False prod.case)
    with c show ?thesis by blast
  next
    case False
    define ti where "ti = min 80 (a powr 0.8) * (0.7 * 1.3) + min 85 (s powr 0.9) * (0.3 * 1.5)"
    define r where "r = max 0 (min 95 (if ti > 120 then max (100 / (1 + ti / 10) * cf * 0.8) 10
             else if ti > 100 then max (100 / (1 + ti / 10) * cf * 0.9) 15
             else 100 / (1 + ti / 10) * cf))"
    have "20 < ti" unfolding ti_def using ma ms by simp
    from readiness_below_40[OF this cf] have "r < 40" unfolding r_def .
    then have c: "classify_readiness r = HIGH_RISK" by (simp add: classify_readiness_def)
    have "calculate_readiness_score a s t = Inr r"
      unfolding calculate_readiness_score_def Let_def r_def ti_def cf_def
      by (simp only: na ns a60 a70 s70 False if_True if_False prod.case)
    with c show ?thesis by blast
  qed
qed

lemma zero_scores_ready:
  "\<exists>r. calculate_readiness_score 0 0 t = Inr r \<and> classify_readiness r = READY"
  unfolding calculate_readiness_score_def Let_def classify_readiness_def
  by simp

subsection \<open>The loop that collects the questions\<close>

lemma first_occurrences_filter:
  "first_occurrences (filter P xs) = filter P (first_occurrences xs)"
proof (induction xs rule: first_occurrences.induct)
  case 1
  show ?case by simp
next
  case (2 x xs)
  show ?case
  proof (cases "P x")
    case True
    have "filter (\<lambda>y. y \<noteq> x) (filter P xs) = filter P (filter (\<lambda>y. y \<noteq> x) xs)"
      by (simp add: conj_commute)
    with True 2 show ?thesis by simp
  next
    case False
    have "filter P xs = filter P (filter (\<lambda>y. y \<noteq> x) xs)"
      using False by (auto intro: filter_cong)
    with False 2 show ?thesis by simp
  qed
qed

lemma set_first_occurrences: "set (first_occurrences xs) = set xs"
  by (induction xs rule: first_occurrences.induct) auto

lemma distinct_first_occurrences: "distinct (first_occurrences xs)"
  by (induction xs rule: first_occurrences.induct) (auto simp: set_first_occurrences)

lemma first_phrase_in_values:
  "first_phrase m s = Some q \<Longrightarrow> q \<in> snd ` set m"
  by (induction m s rule: first_phrase.induct) (auto split: if_splits)

lemma ambiguity_question_nonempty: "get_ambiguity_question i \<noteq> []"
  by (auto simp: get_ambiguity_question_def ambiguity_question_map_def
      split: option.splits dest!: first_phrase_in_values)

lemma assumption_question_nonempty: "get_assumption_question i \<noteq> []"
  by (auto simp: get_assumption_question_def assumption_question_map_def Let_def
      split: option.splits dest!: first_phrase_in_values)

lemma add_question_new:
  "q \<noteq> [] \<Longrightarrow> add_question acc q = (if q \<in> set acc then acc else acc @ [q])"
  by (simp add: add_question_def)

lemma questions_loop_first_occurrences:
  "questions_loop acc fs
     = acc @ first_occurrences (filter (\<lambda>q. q \<notin> set acc) (candidate_questions fs))"
proof (induction fs arbitrary: acc)
  case Nil
  show ?case by (simp add: candidate_questions_def)
next
  case (Cons f fs)
  have step: "questions_loop (if q \<in> set acc then acc else acc @ [q]) fs
      = acc @ first_occurrences (filter (\<lambda>x. x \<notin> set acc) (q # candidate_questions fs))" for q
  proof (cases "q \<in> set acc")
    case True
    then show ?thesis using Cons.IH[of acc] by simp
  next
    case False
    have "filter (\<lambda>y. y \<noteq> q) (filter (\<lambda>x. x \<notin> set acc) (candidate_questions fs))
        = filter (\<lambda>x. x \<notin> set (acc @ [q])) (candidate_questions fs)"
      by (auto intro: filter_cong)
    then show ?thesis using False Cons.IH[of "acc @ [q]"] by simp
  qed
  show ?case
  proof (cases "f_type f = ''Ambiguity''")
    case True
    then show ?thesis
      using step[of "get_ambiguity_question f"]
      by (simp add: add_question_new ambiguity_question_nonempty candidate_questions_def issue_question_def)
  next
    case False
    show ?thesis
    proof (cases "f_type f = ''Assumption''")
      case True
      then show ?thesis
        using step[of "get_assumption_question f"] False
        by (simp add: add_question_new assumption_question_nonempty candidate_questions_def issue_question_def)
    next
      case F2: False
      then show ?thesis using False Cons.IH[of acc]
        by (simp add: candidate_questions_def issue_question_def)
    qed
  qed
qed

lemma questions_loop_standard:
  "questions_loop standard_questions fs
     = first_occurrences (standard_questions @ candidate_questions fs)"
proof -
  have "filter (\<lambda>y. y \<noteq> ''What is the expected result and how should it be verified?'')
          (filter (\<lambda>y. y \<noteq> ''What are the exact preconditions required for this test?'')
             (candidate_questions fs))
        = filter (\<lambda>q. q \<notin> set standard_questions) (candidate_questions fs)"
    by (auto simp: standard_questions_def intro: filter_cong)
  then show ?thesis
    unfolding questions_loop_first_occurrences[of standard_questions fs]
    by (simp add: standard_questions_def)
qed

subsection \<open>The sentence "The system should log errors"\<close>

lemma lower_sentence:
  "lower ''The system should log errors'' = ''the system should log errors''"
  by code_simp

lemma sentence_words: "length (str_split ''The system should log errors'') = 5"
  by code_simp

lemma sentence_not_empty: "''The system should log errors'' \<noteq> []"
  by simp

lemma sentence_no_non_testable:
  "detect_non_testable_statements ''The system should log errors'' = []"
  by code_simp

lemma lower_words:
  "lower ''the'' = ''the''" "lower ''system'' = ''system''" "lower ''should'' = ''should''"
  "lower ''log'' = ''log''" "lower ''errors'' = ''errors''"
  by code_simp+

lemma weak_modality_weight:
  "amb_type i = ''Weak modality'' \<Longrightarrow> issue_weight i = 8"
  by (simp add: issue_weight_def AMBIGUITY_WEIGHTS_def get_subjective_term_weight_def)

lemma weak_modality_in_lexical:
  "amb_type i = ''Weak modality'' \<Longrightarrow> i \<in> set xs \<Longrightarrow> i \<in> set (lexical_issues xs)"
  by (induction xs) auto

lemma weak_modality_in_testability:
  "amb_type i = ''Weak modality'' \<Longrightarrow> i \<in> set xs \<Longrightarrow> i \<in> set (testability_issues xs)"
  by (induction xs) auto

lemma sentence_detection:
  assumes "map tok_text (nlp ''the system should log errors'')
             = [''the'', ''system'', ''should'', ''log'', ''errors'']"
  shows "\<exists>t. tok_text t = ''should'' \<and>
           detect_ambiguities nlp ''The system should log errors''
             = [weak_modality_issue t ''The system should log errors'']"
proof -
  from assms obtain t1 t2 t3 t4 t5 where
    doc: "nlp ''the system should log errors'' = [t1, t2, t3, t4, t5]"
    and t: "tok_text t1 = ''the''" "tok_text t2 = ''system''" "tok_text t3 = ''should''"
      "tok_text t4 = ''log''" "tok_text t5 = ''errors''"
    by (auto simp: map_eq_Cons_conv)
  have "detect_ambiguities nlp ''The system should log errors''
             = [weak_modality_issue t3 ''The system should log errors'']"
    unfolding detect_ambiguities_def Let_def lower_sentence doc sentence_no_non_testable
    by (simp add: t lower_words subjective_terms_def weak_modality_terms_def
        undefined_references_def)
  with t show ?thesis by blast
qed

lemma sentence_scores:
  assumes "amb_type i = ''Weak modality''"
  shows "amb_components (calculate_ambiguity_score [i] ''The system should log errors'')
           = \<lparr>lexical = 20, testability = 24, references = 0\<rparr>"
  using assms
  by (simp add: calculate_ambiguity_score_def calculate_component_score_def Let_def
      weak_modality_weight text_length_or_50_def sentence_words py_round1_def)

lemma plain_sentence_tokens:
  "map tok_text (plain_nlp ''the system should log errors'')
       = [''the'', ''system'', ''should'', ''log'', ''errors'']"
  by code_simp

subsection \<open>The empty text\<close>

lemma empty_actions: "actions_loop (lower []) action_patterns = []"
  by code_simp

lemma empty_environment: "detect_environment_assumptions [] = []"
  by code_simp

lemma empty_context: "detect_context_assumptions [] = []"
  by code_simp

lemma empty_non_testable: "detect_non_testable_statements [] = []"
  by code_simp

lemma empty_assumptions: "detect_assumptions nlp [] = []"
  by (simp add: detect_assumptions_def detect_action_assumptions_def empty_actions
      empty_environment empty_context)

lemma empty_ambiguities: "nlp [] = [] \<Longrightarrow> detect_ambiguities nlp [] = []"
  by (simp add: detect_ambiguities_def lower_def empty_non_testable)

lemma plain_nlp_empty: "plain_nlp [] = []"
  by (simp add: plain_nlp_def)

subsection \<open>A text with twelve non-testable statements\<close>

lemma two_line_types:
  "map amb_type (detect_ambiguities plain_nlp
     (''handle work function behave perform process correctly properly'' @ [CHR 0x0A] @
      ''handle work function behave perform process correctly properly''))
   = replicate 12 ''Non-testable statement''"
  by code_simp

lemma two_line_words:
  "length (str_split
     (''handle work function behave perform process correctly properly'' @ [CHR 0x0A] @
      ''handle work function behave perform process correctly properly'')) = 16"
  by code_simp

lemma non_testable_only:
  "map amb_type xs = replicate n ''Non-testable statement'' \<Longrightarrow>
     testability_issues xs = xs \<and> lexical_issues xs = [] \<and> reference_issues xs = []
     \<and> sum_list (map issue_weight xs) = 15 * real n"
proof (induction xs arbitrary: n)
  case Nil
  then show ?case by simp
next
  case (Cons x xs)
  then obtain m where n: "n = Suc m" by (cases n) auto
  with Cons.prems have x: "amb_type x = ''Non-testable statement''"
    and r: "map amb_type xs = replicate m ''Non-testable statement''" by simp_all
  have w: "issue_weight x = 15"
    by (simp add: issue_weight_def AMBIGUITY_WEIGHTS_def x)
  from Cons.IH[OF r] show ?case by (simp add: x w n algebra_simps)
qed

subsection \<open>Weights and monotonicity of the component score\<close>











subsection \<open>A text whose subjective terms are suppressed by an appended word\<close>







subsection \<open>The substring search of the offset lookup\<close>








section \<open>The claims\<close>

text \<open>
  C1. The claim: every component score lies in [0,100]. \<open>_calculate_component_score\<close>
  returns \<open>80 + (raw_score - 80) * 0.3\<close> for a raw score above 80 without the cap at
  100 that its last line applies to the other branch. A text of two lines, each matched
  by all six non-testable patterns, has 12 issues of weight 15: raw score 220,
  testability component 122.
\<close>

theorem C1_component_above_100:
  "testability (amb_components (calculate_ambiguity_score
      (detect_ambiguities plain_nlp
        (''handle work function behave perform process correctly properly'' @ [CHR 0x0A] @
         ''handle work function behave perform process correctly properly''))
      (''handle work function behave perform process correctly properly'' @ [CHR 0x0A] @
       ''handle work function behave perform process correctly properly''))) = 122"
proof -
  define T where "T = ''handle work function behave perform process correctly properly''
      @ [CHR 0x0A] @ ''handle work function behave perform process correctly properly''"
  define xs where "xs = detect_ambiguities plain_nlp T"
  have ty: "map amb_type xs = replicate 12 ''Non-testable statement''"
    unfolding xs_def T_def by (rule two_line_types)
  have len: "length xs = 12"
    using arg_cong[OF ty, of length] by simp
  have ne: "xs \<noteq> []" using len by auto
  have wc: "text_length_or_50 T = 16"
    unfolding text_length_or_50_def T_def using two_line_words by simp
  from non_testable_only[OF ty]
  have p: "testability_issues xs = xs" and s: "sum_list (map issue_weight xs) = 180"
    by simp_all
  have "calculate_component_score xs T ''testability'' = 122"
    by (simp add: calculate_component_score_def Let_def ne s wc len)
  moreover have "py_round1 122 = 122" by (simp add: py_round1_def)
  ultimately have "testability (amb_components (calculate_ambiguity_score xs T)) = 122"
    by (simp add: calculate_ambiguity_score_def Let_def ne p)
  then show ?thesis unfolding xs_def T_def .
qed

text \<open>
  C2 (as stated). For scores in [0,100] and every text, \<open>calculate_readiness_score\<close>
  computes the reference algorithm of the specification, whose complexity factor is
  taken from the word count of the text. This fails for the empty text: the code counts
  it as 50 words (factor 1.0) where the word count 0 gives the factor 1.2. With both
  scores 1 the code returns 100/1.1 and the reference algorithm 95.
\<close>

theorem C2_empty_text_counterexample:
  "calculate_readiness_score 1 1 [] \<noteq> Inr (spec_readiness 1 1 (word_count []))"
  unfolding calculate_readiness_score_def spec_readiness_def spec_base_weights_def
    spec_complexity_factor_def word_count_def Let_def str_split_def
  by simp

text \<open>
  C2 (amended). For all non-negative scores, so for all scores in [0,100], and every text,
  \<open>calculate_readiness_score\<close> returns the value of the reference algorithm at the word
  count of the text, the empty text being counted as 50 words.
\<close>

theorem C2_readiness_refines_spec:
  assumes "0 \<le> a" "0 \<le> s"
  shows "calculate_readiness_score a s t
           = Inr (spec_readiness a s (if t = [] then 50 else word_count t))"
proof -
  have na: "\<not> a < 0" and ns: "\<not> s < 0" using assms by simp_all
  show ?thesis
    unfolding calculate_readiness_score_def spec_readiness_def spec_base_weights_def
      spec_complexity_factor_def word_count_def Let_def
    by (cases "a < s"; cases "60 < a"; cases "70 < a"; cases "70 < s")
       (simp_all only: na ns if_True if_False fst_conv snd_conv prod.case mult_1_right)
qed

theorem C2_readiness_refines_spec_witness:
  "calculate_readiness_score 65 30 ''log in''
     = Inr (spec_readiness 65 30 (word_count ''log in''))"
  using C2_readiness_refines_spec [of 65 30 "''log in''"] by simp

text \<open>
  C3 (as stated). For the empty string the ambiguity analysis has confidence LOW. The code
  returns early on an empty issue list, with the confidence HIGH.
\<close>

theorem C3_confidence_counterexample:
  "confidence (calculate_ambiguity_score (detect_ambiguities plain_nlp []) []) \<noteq> ''LOW''"
  using empty_ambiguities [of plain_nlp] plain_nlp_empty
  by (simp add: calculate_ambiguity_score_def)

text \<open>
  C3 (amended). For the empty string, with a pipeline that returns no token for it,
  detection yields no ambiguity issue and no assumption issue, the ambiguity score is 0
  with confidence HIGH and all components 0, the assumption score is 0 with the three
  strengths NONE, and the readiness score classifies as READY (level "Ready").
\<close>

theorem C3_empty_text:
  assumes "nlp [] = []"
  shows "detect_ambiguities nlp [] = []
    \<and> detect_assumptions nlp [] = []
    \<and> calculate_ambiguity_score (detect_ambiguities nlp []) []
        = \<lparr>amb_score = 0, confidence = ''HIGH'',
           amb_components = \<lparr>lexical = 0, testability = 0, references = 0\<rparr>\<rparr>
    \<and> calculate_assumption_score (detect_assumptions nlp []) []
        = \<lparr>asm_score = 0,
           asm_components =
             \<lparr>environment = \<lparr>count = 0, strength = ''NONE''\<rparr>,
              data = \<lparr>count = 0, strength = ''NONE''\<rparr>,
              state = \<lparr>count = 0, strength = ''NONE''\<rparr>\<rparr>\<rparr>
    \<and> (\<exists>r. calculate_readiness_score 0 0 [] = Inr r \<and> classify_readiness r = READY)
    \<and> (\<exists>res. analyze_text nlp [] = Inr res \<and> readiness_level res = ''Ready'')"
proof -
  have ea: "detect_ambiguities nlp [] = []"
    using empty_ambiguities[of nlp] assms by simp
  have r: "calculate_readiness_score 0 0 [] = Inr 95"
    by (simp add: calculate_readiness_score_def Let_def)
  have c: "classify_readiness 95 = READY" by (simp add: classify_readiness_def)
  have "\<exists>res. analyze_text nlp [] = Inr res \<and> readiness_level res = ''Ready''"
    by (simp add: analyze_text_def Let_def ea empty_assumptions
        calculate_ambiguity_score_def calculate_assumption_score_def r c)
  then show ?thesis
    using r c
    by (simp add: ea empty_assumptions
        calculate_ambiguity_score_def calculate_assumption_score_def)
qed

theorem C3_empty_text_witness:
  "detect_ambiguities plain_nlp [] = []
    \<and> detect_assumptions plain_nlp [] = []
    \<and> calculate_ambiguity_score (detect_ambiguities plain_nlp []) []
        = \<lparr>amb_score = 0, confidence = ''HIGH'',
           amb_components = \<lparr>lexical = 0, testability = 0, references = 0\<rparr>\<rparr>
    \<and> calculate_assumption_score (detect_assumptions plain_nlp []) []
        = \<lparr>asm_score = 0,
           asm_components =
             \<lparr>environment = \<lparr>count = 0, strength = ''NONE''\<rparr>,
              data = \<lparr>count = 0, strength = ''NONE''\<rparr>,
              state = \<lparr>count = 0, strength = ''NONE''\<rparr>\<rparr>\<rparr>
    \<and> (\<exists>r. calculate_readiness_score 0 0 [] = Inr r \<and> classify_readiness r = READY)
    \<and> (\<exists>res. analyze_text plain_nlp [] = Inr res \<and> readiness_level res = ''Ready'')"
  by (rule C3_empty_text [of plain_nlp, OF plain_nlp_empty])

text \<open>
  C4. With both scores 0 the readiness score classifies as READY, and with both scores
  at least 80 it classifies as HIGH_RISK, whatever the text.
\<close>

theorem C4_classification_boundaries:
  "(\<exists>r. calculate_readiness_score 0 0 t = Inr r \<and> classify_readiness r = READY)
   \<and> (80 \<le> a \<and> 80 \<le> s \<longrightarrow>
        (\<exists>r. calculate_readiness_score a s t = Inr r \<and> classify_readiness r = HIGH_RISK))"
  using zero_scores_ready high_risk_scores by blast

theorem C4_classification_boundaries_witness:
  "(\<exists>r. calculate_readiness_score 0 0 ''log in'' = Inr r \<and> classify_readiness r = READY)
   \<and> (\<exists>r. calculate_readiness_score 80 95 ''log in'' = Inr r
          \<and> classify_readiness r = HIGH_RISK)"
  using C4_classification_boundaries [of "''log in''" 80 95] by simp




text \<open>
  C6. For every pipeline that splits the lower-cased sentence into its five words, the
  text "The system should log errors" yields exactly one issue, a Weak modality issue
  for "should", and its lexical and testability components are 20 and 24. Every Weak
  modality issue of a list is placed in both the lexical and the testability partition,
  with the weight 8.
\<close>

theorem C6_weak_modality:
  "(map tok_text (nlp ''the system should log errors'')
       = [''the'', ''system'', ''should'', ''log'', ''errors''] \<longrightarrow>
      map amb_type (detect_ambiguities nlp ''The system should log errors'')
        = [''Weak modality'']
      \<and> map amb_text (detect_ambiguities nlp ''The system should log errors'') = [''should'']
      \<and> amb_components (calculate_ambiguity_score
            (detect_ambiguities nlp ''The system should log errors'')
            ''The system should log errors'')
          = \<lparr>lexical = 20, testability = 24, references = 0\<rparr>)
   \<and> (amb_type i = ''Weak modality'' \<and> i \<in> set xs \<longrightarrow>
        i \<in> set (lexical_issues xs) \<and> i \<in> set (testability_issues xs)
        \<and> issue_weight i = 8)"
proof -
  have a: "map amb_type (detect_ambiguities nlp ''The system should log errors'')
        = [''Weak modality'']
      \<and> map amb_text (detect_ambiguities nlp ''The system should log errors'') = [''should'']
      \<and> amb_components (calculate_ambiguity_score
            (detect_ambiguities nlp ''The system should log errors'')
            ''The system should log errors'')
          = \<lparr>lexical = 20, testability = 24, references = 0\<rparr>"
    if h: "map tok_text (nlp ''the system should log errors'')
       = [''the'', ''system'', ''should'', ''log'', ''errors'']"
  proof -
    from sentence_detection[of nlp] h obtain t where
      t: "tok_text t = ''should''"
      and d: "detect_ambiguities nlp ''The system should log errors''
             = [weak_modality_issue t ''The system should log errors'']"
      by blast
    have ty: "amb_type (weak_modality_issue t ''The system should log errors'') = ''Weak modality''"
      by (simp add: weak_modality_issue_def Let_def)
    have tx: "amb_text (weak_modality_issue t ''The system should log errors'') = ''should''"
      by (simp add: weak_modality_issue_def Let_def t)
    show ?thesis unfolding d using ty tx sentence_scores[OF ty] by simp
  qed
  show ?thesis
    using a weak_modality_in_lexical weak_modality_in_testability weak_modality_weight
    by blast
qed

theorem C6_weak_modality_witness:
  "map amb_type (detect_ambiguities plain_nlp ''The system should log errors'')
        = [''Weak modality'']
   \<and> map amb_text (detect_ambiguities plain_nlp ''The system should log errors'') = [''should'']
   \<and> amb_components (calculate_ambiguity_score
            (detect_ambiguities plain_nlp ''The system should log errors'')
            ''The system should log errors'')
          = \<lparr>lexical = 20, testability = 24, references = 0\<rparr>
   \<and> weak_modality_issue (plain_token ''should'' 11) ''The system should log errors''
        \<in> set (lexical_issues
             [weak_modality_issue (plain_token ''should'' 11) ''The system should log errors''])
   \<and> weak_modality_issue (plain_token ''should'' 11) ''The system should log errors''
        \<in> set (testability_issues
             [weak_modality_issue (plain_token ''should'' 11) ''The system should log errors''])
   \<and> issue_weight
         (weak_modality_issue (plain_token ''should'' 11) ''The system should log errors'') = 8"
proof -
  have ty: "amb_type (weak_modality_issue (plain_token ''should'' 11)
              ''The system should log errors'') = ''Weak modality''"
    by (simp add: weak_modality_issue_def Let_def)
  show ?thesis
    using C6_weak_modality [of plain_nlp
        "weak_modality_issue (plain_token ''should'' 11) ''The system should log errors''"
        "[weak_modality_issue (plain_token ''should'' 11) ''The system should log errors'']"]
      plain_sentence_tokens ty
    by simp
qed

text \<open>
  C7. The claim: a text containing "if possible", "as needed" or "when necessary" gets a
  Weak modality issue for the phrase. The detector compares each single token with the
  set, and no token is a phrase of two words: the three sentences below get no Weak
  modality issue.
\<close>

theorem C7_phrases_not_flagged:
  "detect_weak_modality (plain_nlp (lower ''Retry if possible'')) ''Retry if possible'' = []
   \<and> detect_weak_modality (plain_nlp (lower ''Scale as needed'')) ''Scale as needed'' = []
   \<and> detect_weak_modality (plain_nlp (lower ''Restart when necessary''))
         ''Restart when necessary'' = []"
  by code_simp

text \<open>
  C8. For every list of formatted issues and every text, the list of clarifying questions
  has at most 8 entries, has no duplicates, begins with the two standard questions, and
  is the first 8 entries of the standard questions followed by the questions of the
  issues in their order, each kept at its first occurrence only.
\<close>

theorem C8_clarifying_questions:
  "length (generate_clarifying_questions fs t) \<le> 8
   \<and> distinct (generate_clarifying_questions fs t)
   \<and> take 2 (generate_clarifying_questions fs t) = standard_questions
   \<and> generate_clarifying_questions fs t
       = take 8 (first_occurrences (standard_questions @ candidate_questions fs))"
proof -
  have e: "generate_clarifying_questions fs t
       = take 8 (first_occurrences (standard_questions @ candidate_questions fs))"
    by (simp add: generate_clarifying_questions_def questions_loop_standard)
  have d: "distinct (generate_clarifying_questions fs t)"
    unfolding e by (rule distinct_take) (rule distinct_first_occurrences)
  have t2: "take 2 (generate_clarifying_questions fs t) = standard_questions"
    unfolding e by (simp add: standard_questions_def)
  show ?thesis using e d t2 by simp
qed

theorem C8_clarifying_questions_witness:
  "length (generate_clarifying_questions
      [\<lparr>f_type = ''Ambiguity'', f_message = ''Subjective term'', f_category = None,
        f_assumption = None, f_impact = []\<rparr>] ''fast'') \<le> 8
   \<and> distinct (generate_clarifying_questions
      [\<lparr>f_type = ''Ambiguity'', f_message = ''Subjective term'', f_category = None,
        f_assumption = None, f_impact = []\<rparr>] ''fast'')
   \<and> take 2 (generate_clarifying_questions
      [\<lparr>f_type = ''Ambiguity'', f_message = ''Subjective term'', f_category = None,
        f_assumption = None, f_impact = []\<rparr>] ''fast'') = standard_questions
   \<and> generate_clarifying_questions
      [\<lparr>f_type = ''Ambiguity'', f_message = ''Subjective term'', f_category = None,
        f_assumption = None, f_impact = []\<rparr>] ''fast''
       = take 8 (first_occurrences (standard_questions @ candidate_questions
      [\<lparr>f_type = ''Ambiguity'', f_message = ''Subjective term'', f_category = None,
        f_assumption = None, f_impact = []\<rparr>]))"
  by (rule C8_clarifying_questions)




text \<open>
  C10. \<open>get_score_breakdown\<close> raises TypeError for every pipeline and every text: the
  dictionaries of the two score functions reach the comparison that opens
  \<open>calculate_readiness_score\<close>.
\<close>

theorem C10_score_breakdown_always_fails:
  "get_score_breakdown nlp text_in = Inl TypeError"
  by (simp add: get_score_breakdown_def calculate_readiness_score_value_def py_gt_def Let_def)

theorem C10_score_breakdown_always_fails_witness:
  "get_score_breakdown plain_nlp ''The system should log errors'' = Inl TypeError"
  using C10_score_breakdown_always_fails [of plain_nlp "''The system should log errors''"]
  by simp

end
